theory Spec2Isabelle
  imports Complex_Main "HOL-Library.AList" "HOL-Library.Sublist" "HOL-Library.Multiset"
    "HOL-Library.Word" "HOL-Library.Char_ord" "HOL-Library.List_Lexorder"
begin

section \<open>Data model of \<open>cortex/dataset/dataset.py\<close>\<close>

text \<open>
  The raw data objects a view is built from.  The pack branch of \<open>save\<close> reads
  \<open>data.subject\<close> of every object and \<open>data.xfmname\<close>, \<open>data._mask\<close> of the
  volume-typed ones; a mask is either a name (a \<open>str\<close>) or an inline array.
\<close>

datatype maskv = MaskName string | MaskInline "bool list"

datatype braindata =
    VolumeData string string maskv
  | VertexData string

fun subject :: "braindata \<Rightarrow> string" where
  "subject (VolumeData s x m) = s"
| "subject (VertexData s) = s"

text \<open>
  A Dataview is opaque to this module: it reads \<open>priority\<close> and \<open>uniques()\<close> and calls
  the (de)serialisation hooks, which are collaborators (see \<open>collab\<close> below).
\<close>

record dataview =
  priority :: int
  dv_uniques :: "braindata list"

text \<open>
  Python values that can reach \<open>normalize\<close>.  A dict is an association list in
  insertion order; \<open>PyDataset h vs\<close> is a Dataset object with handle \<open>h\<close> and
  \<open>views\<close> dict \<open>vs\<close>.  Keyword dictionaries have string keys.
\<close>

datatype pyval =
    PyDataview dataview
  | PyDataset "string option" "(string \<times> pyval) list"
  | PyDict "(string \<times> pyval) list"
  | PyStr string
  | PyTuple "pyval list"
  | PyInt int
  | PyNone
  | PyList "pyval list"

fun type_name :: "pyval \<Rightarrow> string" where
  "type_name (PyDataview d) = ''Dataview''"
| "type_name (PyDataset h vs) = ''Dataset''"
| "type_name (PyDict kv) = ''dict''"
| "type_name (PyStr s) = ''str''"
| "type_name (PyTuple t) = ''tuple''"
| "type_name (PyInt i) = ''int''"
| "type_name PyNone = ''NoneType''"
| "type_name (PyList l) = ''list''"

fun as_view :: "pyval \<Rightarrow> dataview option" where
  "as_view (PyDataview d) = Some d"
| "as_view v = None"

fun is_dataview :: "pyval \<Rightarrow> bool" where
  "is_dataview (PyDataview d) = True"
| "is_dataview v = False"

text \<open>
  Exceptions: the class, the message (the format string of \<open>"..." % args\<close>, or the
  looked-up name for a NameError or KeyError) and the values formatted into it.
\<close>

datatype exn_kind =
  TypeError | ValueError | KeyError | NameError | AttributeError | IOError | OtherError

datatype error = Raise exn_kind string "pyval list"

fun kind_of :: "error \<Rightarrow> exn_kind" where
  "kind_of (Raise k m a) = k"

fun message_of :: "error \<Rightarrow> string" where
  "message_of (Raise k m a) = m"

fun args_of :: "error \<Rightarrow> pyval list" where
  "args_of (Raise k m a) = a"

record dataset =
  h5 :: "string option"
  views :: "(string \<times> pyval) list"

definition new_dataset :: dataset where
  "new_dataset = \<lparr>h5 = None, views = []\<rparr>"

definition to_py :: "dataset \<Rightarrow> pyval" where
  "to_py ds = PyDataset (h5 ds) (views ds)"

subsection \<open>The hierarchical file\<close>

text \<open>
  Surface meshes are N x 3 float arrays of points and M x 3 integer arrays of vertex
  indices.  Floating-point numbers are idealised as rationals.  A numpy integer array
  has a fixed width, which it keeps when a Python int is added to it: the vertex
  indices are unsigned 32-bit integers, and their arithmetic wraps.
\<close>

type_synonym point = "rat \<times> rat \<times> rat"
type_synonym poly = "32 word \<times> 32 word \<times> 32 word"

record surf_node =
  node_pts :: "point list option"
  node_polys :: "poly list option"

record xfm_node =
  xfm_matrix :: "rat list list option"
  xfm_shape :: "nat list option"
  xfm_masks :: "(string \<times> bool list) list option"

record subject_grp =
  sg_rois :: "string list option"
  sg_surfaces :: "(string \<times> (string \<times> surf_node) list) list option"
  sg_transforms :: "(string \<times> xfm_node) list option"

text \<open>
  The layout of the file's top level.  What a Dataview writes below \<open>views/<name>\<close> and
  \<open>data\<close> is owned by the Dataview collaborator: a view node is kept as the opaque
  value \<open>vnode\<close>, together with everything its loader reads.  A foreign top-level node
  is kept with its attributes.
\<close>

type_synonym vnode = "int list"
type_synonym foreign_node = "(string \<times> string) list"

record h5file =
  top_data :: "(string \<times> int list) list option"
  top_subjects :: "(string \<times> subject_grp) list option"
  top_views :: "(string \<times> vnode) list option"
  top_foreign :: "(string \<times> foreign_node) list"

definition empty_h5 :: h5file where
  "empty_h5 = \<lparr>top_data = None, top_subjects = None, top_views = None, top_foreign = []\<rparr>"

definition reserved :: "string list" where
  "reserved = [''data'', ''subjects'', ''views'']"

text \<open>
  h5py iterates over the members of a group in the order of their names.
  \<open>h5_keys\<close> are the names \<open>ds.h5.items()\<close> iterates over, \<open>h5_items\<close> the members
  \<open>.items()\<close> of a group yields.
\<close>

definition h5_keys :: "h5file \<Rightarrow> string list" where
  "h5_keys f =
     sort
       ((case top_data f of None \<Rightarrow> [] | Some d \<Rightarrow> [''data'']) @
        (case top_subjects f of None \<Rightarrow> [] | Some s \<Rightarrow> [''subjects'']) @
        (case top_views f of None \<Rightarrow> [] | Some v \<Rightarrow> [''views'']) @
        map fst (top_foreign f))"

definition h5_items :: "(string \<times> 'a) list \<Rightarrow> (string \<times> 'a) list" where
  "h5_items g = sort_key fst g"

subsection \<open>Process state\<close>

datatype out_line = Printed string | Traceback error

text \<open>
  The file system maps a file name to what is there: a hierarchical file with its
  contents, or something h5py cannot open (not a hierarchical file, or not
  accessible).  \<open>auxfile\<close> is \<open>db.auxfile\<close>.  It is bound to the Dataset being loaded,
  whose loaders reach the open handle through it; the binding is recorded by the name
  of the file the handle was opened on.  A Dataset's handle \<open>h5\<close> is likewise the name
  of its file.
\<close>

datatype fentry = H5File h5file | Unreadable

record world =
  fs :: "string \<Rightarrow> fentry option"
  auxfile :: "string option"
  out :: "out_line list"

definition py_print :: "world \<Rightarrow> out_line \<Rightarrow> world" where
  "py_print w line = w\<lparr>out := out w @ [line]\<rparr>"

text \<open>
  \<open>h5py.File(filename)\<close> with no mode: a hierarchical file is opened as it is, a
  missing file is created empty, and the call raises for what it cannot open.  The
  file is never truncated.
\<close>

definition h5py_File :: "world \<Rightarrow> string \<Rightarrow> error + (world \<times> h5file)" where
  "h5py_File w filename =
     (case fs w filename of
        Some (H5File f) \<Rightarrow> Inr (w, f)
      | Some Unreadable \<Rightarrow> Inl (Raise IOError ''unable to open file'' [PyStr filename])
      | None \<Rightarrow> Inr (w\<lparr>fs := (fs w)(filename \<mapsto> H5File empty_h5)\<rparr>, empty_h5))"

text \<open>The contents seen, and written, through an open handle.\<close>

definition h5_contents :: "world \<Rightarrow> string \<Rightarrow> h5file" where
  "h5_contents w filename = (case fs w filename of Some (H5File f) \<Rightarrow> f | _ \<Rightarrow> empty_h5)"

definition h5_store :: "world \<Rightarrow> string \<Rightarrow> h5file \<Rightarrow> world" where
  "h5_store w filename f = w\<lparr>fs := (fs w)(filename \<mapsto> H5File f)\<rparr>"

subsection \<open>Collaborators\<close>

text \<open>
  The functions this module calls and does not define: \<open>views.normalize\<close> (imported as
  \<open>_vnorm\<close>), \<open>Dataview._write_hdf\<close>, \<open>Dataview.from_hdf\<close> and the anatomical database
  \<open>db\<close>.  \<open>from_hdf_data\<close> is what the name \<open>_from_hdf_data\<close> would denote if the module
  bound it.
\<close>

record collab =
  vnorm :: "pyval list \<Rightarrow> error + pyval"
  write_hdf :: "dataview \<Rightarrow> string \<Rightarrow> h5file \<Rightarrow> error + h5file"
  from_hdf :: "world \<Rightarrow> vnode \<Rightarrow> error + dataview"
  from_hdf_data :: "h5file \<Rightarrow> string \<Rightarrow> error + pyval"
  db_get_overlay :: "string \<Rightarrow> error + string"
  db_get_paths :: "string \<Rightarrow> error + string list"
  db_get_surf :: "string \<Rightarrow> string \<Rightarrow> string \<Rightarrow> error + (point list \<times> poly list)"
  db_get_xfm :: "string \<Rightarrow> string \<Rightarrow> error + (rat list list \<times> nat list)"
  db_get_mask :: "string \<Rightarrow> string \<Rightarrow> string \<Rightarrow> error + bool list"

subsection \<open>Name resolution\<close>

text \<open>
  The names the module binds at its top level (lines 1 to 11 and the \<open>class\<close> and
  \<open>def\<close> statements), and the builtins its code refers to.  A reference to any other
  global name raises NameError when it is evaluated.
\<close>

definition module_globals :: "string list" where
  "module_globals =
     [''tempfile'', ''warnings'', ''np'', ''h5py'', ''db'', ''Transform'', ''_hdf_write'',
      ''_vnorm'', ''Dataview'', ''Dataset'', ''normalize'', ''_pack_subjs'', ''_pack_xfms'',
      ''_pack_masks'']"

definition builtins :: "string list" where
  "builtins =
     [''object'', ''isinstance'', ''sorted'', ''len'', ''list'', ''dict'', ''set'', ''str'',
      ''tuple'', ''print'', ''classmethod'', ''ValueError'', ''KeyError'', ''TypeError'',
      ''IOError'', ''AttributeError'']"

definition name_bound :: "string \<Rightarrow> bool" where
  "name_bound n = (n \<in> set module_globals \<or> n \<in> set builtins)"

section \<open>Dataset.from_file\<close>

definition dict_set :: "(string \<times> 'v) list \<Rightarrow> string \<Rightarrow> 'v \<Rightarrow> (string \<times> 'v) list" where
  "dict_set d k v = AList.update k v d"

definition dict_update :: "(string \<times> 'v) list \<Rightarrow> (string \<times> 'v) list \<Rightarrow> (string \<times> 'v) list" where
  "dict_update d other = fold (\<lambda>(k, v) acc. dict_set acc k v) other d"

definition no_metadata_msg :: "string \<Rightarrow> string" where
  "no_metadata_msg name =
     ''No metadata found for '' @ [CHR 0x22] @ name @ [CHR 0x22] @ '', skipping...''"

text \<open>
  Lines 76 to 82: the loop over the top-level names.  The call evaluates the global
  name \<open>_from_hdf_data\<close> first; only a KeyError of the call is caught.
\<close>

fun load_stray :: "collab \<Rightarrow> h5file \<Rightarrow> world \<Rightarrow> dataset \<Rightarrow> string list \<Rightarrow> world \<times> (error + dataset)" where
  "load_stray P f w ds [] = (w, Inr ds)"
| "load_stray P f w ds (name # rest) =
     (if name \<in> set reserved then load_stray P f w ds rest
      else if \<not> name_bound ''_from_hdf_data'' then (w, Inl (Raise NameError ''_from_hdf_data'' []))
      else (case from_hdf_data P f name of
              Inr v \<Rightarrow> load_stray P f w (ds\<lparr>views := dict_set (views ds) name v\<rparr>) rest
            | Inl e \<Rightarrow>
                if kind_of e = KeyError
                then load_stray P f (py_print w (Printed (no_metadata_msg name))) ds rest
                else (w, Inl e)))"

text \<open>Lines 85 to 90: every failure of a view's loader is printed and skipped.\<close>

fun load_views :: "collab \<Rightarrow> world \<Rightarrow> dataset \<Rightarrow> (string \<times> vnode) list \<Rightarrow> world \<times> dataset" where
  "load_views P w ds [] = (w, ds)"
| "load_views P w ds ((name, node) # rest) =
     (case from_hdf P w node of
        Inr dv \<Rightarrow> load_views P w (ds\<lparr>views := dict_set (views ds) name (PyDataview dv)\<rparr>) rest
      | Inl e \<Rightarrow> load_views P (py_print w (Traceback e)) ds rest)"

text \<open>
  \<open>cls()\<close> runs \<open>__init__\<close> with no keyword, which leaves \<open>h5 = None\<close> and
  \<open>views = {}\<close> (lemma \<open>Dataset_init_no_kwargs\<close> below).
\<close>

definition from_file :: "collab \<Rightarrow> world \<Rightarrow> string \<Rightarrow> world \<times> (error + dataset)" where
  "from_file P w filename =
     (let ds0 = new_dataset
      in case h5py_File w filename of
           Inl e \<Rightarrow> (w, Inl e)
         | Inr (w1, f) \<Rightarrow>
             (let ds1 = ds0\<lparr>h5 := Some filename\<rparr>;
                  w2 = w1\<lparr>auxfile := Some filename\<rparr>
              in case load_stray P f w2 ds1 (h5_keys f) of
                   (w3, Inl e) \<Rightarrow> (w3, Inl e)
                 | (w3, Inr ds3) \<Rightarrow>
                     (case top_views f of
                        None \<Rightarrow> (w3, Inl (Raise KeyError ''views'' []))
                      | Some vs \<Rightarrow>
                          (let (w4, ds4) = load_views P w3 ds3 (h5_items vs)
                           in (w4\<lparr>auxfile := None\<rparr>, Inr ds4)))))"

section \<open>normalize, Dataset.append, Dataset.__init__, Dataset.__iter__\<close>

text \<open>
  \<open>normalize\<close> (lines 198 to 208) and the loop of \<open>append\<close> (lines 31 to 41) call each
  other through \<open>Dataset(**data)\<close>.  \<open>append\<close> returns \<open>self\<close>: the result is the
  updated state of the object it was called on.
\<close>

fun normalize :: "collab \<Rightarrow> world \<Rightarrow> pyval \<Rightarrow> world \<times> (error + pyval)"
  and append :: "collab \<Rightarrow> world \<Rightarrow> dataset \<Rightarrow> (string \<times> pyval) list \<Rightarrow> world \<times> (error + dataset)"
where
  "normalize P w (PyDataview d) = (w, Inr (PyDataview d))"
| "normalize P w (PyDataset h vs) = (w, Inr (PyDataset h vs))"
| "normalize P w (PyDict kv) =
     (case append P w new_dataset kv of
        (w', Inl e) \<Rightarrow> (w', Inl e)
      | (w', Inr ds) \<Rightarrow> (w', Inr (to_py ds)))"
| "normalize P w (PyStr s) =
     (case from_file P w s of
        (w', Inl e) \<Rightarrow> (w', Inl e)
      | (w', Inr ds) \<Rightarrow> (w', Inr (to_py ds)))"
| "normalize P w (PyTuple t) = (w, vnorm P t)"
| "normalize P w (PyInt i) = (w, Inl (Raise TypeError ''Unknown input type'' []))"
| "normalize P w PyNone = (w, Inl (Raise TypeError ''Unknown input type'' []))"
| "normalize P w (PyList l) = (w, Inl (Raise TypeError ''Unknown input type'' []))"
| "append P w ds [] = (w, Inr ds)"
| "append P w ds ((name, data) # rest) =
     (case normalize P w data of
        (w', Inl e) \<Rightarrow> (w', Inl e)
      | (w', Inr (PyDataview d)) \<Rightarrow>
          append P w' (ds\<lparr>views := dict_set (views ds) name (PyDataview d)\<rparr>) rest
      | (w', Inr (PyDataset h vs)) \<Rightarrow>
          append P w' (ds\<lparr>views := dict_update (views ds) vs\<rparr>) rest
      | (w', Inr v) \<Rightarrow>
          (w', Inl (Raise ValueError ''Unknown input %s=%r'' [PyStr name, data])))"

definition Dataset_init :: "collab \<Rightarrow> world \<Rightarrow> (string \<times> pyval) list \<Rightarrow> world \<times> (error + dataset)" where
  "Dataset_init P w kwargs = append P w new_dataset kwargs"

text \<open>
  \<open>__iter__\<close>: \<open>sorted\<close> is stable and reads \<open>priority\<close> of every value first, which
  raises AttributeError on a value that has none.
\<close>

definition view_items :: "dataset \<Rightarrow> (string \<times> dataview) list option" where
  "view_items ds = those (map (\<lambda>(n, v). map_option (Pair n) (as_view v)) (views ds))"

definition Dataset_iter :: "dataset \<Rightarrow> error + (string \<times> dataview) list" where
  "Dataset_iter ds =
     (case view_items ds of
        None \<Rightarrow> Inl (Raise AttributeError ''priority'' [])
      | Some items \<Rightarrow> Inr (sort_key (\<lambda>x. priority (snd x)) items))"

section \<open>Dataset.save and the pack functions\<close>

definition empty_subject :: subject_grp where
  "empty_subject = \<lparr>sg_rois = None, sg_surfaces = None, sg_transforms = None\<rparr>"

definition empty_surf :: surf_node where
  "empty_surf = \<lparr>node_pts = None, node_polys = None\<rparr>"

definition empty_xfm :: xfm_node where
  "empty_xfm = \<lparr>xfm_matrix = None, xfm_shape = None, xfm_masks = None\<rparr>"

definition or_empty :: "'a list option \<Rightarrow> 'a list" where
  "or_empty g = (case g of None \<Rightarrow> [] | Some l \<Rightarrow> l)"

text \<open>
  Modelled from the spec: \<open>_hdf_write\<close> of \<open>braindata.py\<close> is not part of this module.
  It writes one array under a group path, "creating groups as needed" and replacing
  an array already there.  The three functions below reach the group of a subject, of
  one of its surfaces and of one of its transforms in this way.
\<close>

definition upd_subject :: "h5file \<Rightarrow> string \<Rightarrow> (subject_grp \<Rightarrow> subject_grp) \<Rightarrow> h5file" where
  "upd_subject f subj g =
     (let subs = or_empty (top_subjects f);
          cur = (case map_of subs subj of None \<Rightarrow> empty_subject | Some sg \<Rightarrow> sg)
      in f\<lparr>top_subjects := Some (dict_set subs subj (g cur))\<rparr>)"

definition upd_surf :: "h5file \<Rightarrow> string \<Rightarrow> string \<Rightarrow> string \<Rightarrow> (surf_node \<Rightarrow> surf_node) \<Rightarrow> h5file" where
  "upd_surf f subj surf hemi g =
     upd_subject f subj (\<lambda>sg.
       let surfs = or_empty (sg_surfaces sg);
           hemis = (case map_of surfs surf of None \<Rightarrow> [] | Some hs \<Rightarrow> hs);
           cur = (case map_of hemis hemi of None \<Rightarrow> empty_surf | Some n \<Rightarrow> n)
       in sg\<lparr>sg_surfaces := Some (dict_set surfs surf (dict_set hemis hemi (g cur)))\<rparr>)"

definition upd_xfm :: "h5file \<Rightarrow> string \<Rightarrow> string \<Rightarrow> (xfm_node \<Rightarrow> xfm_node) \<Rightarrow> h5file" where
  "upd_xfm f subj xfmname g =
     upd_subject f subj (\<lambda>sg.
       let xs = or_empty (sg_transforms sg);
           cur = (case map_of xs xfmname of None \<Rightarrow> empty_xfm | Some n \<Rightarrow> n)
       in sg\<lparr>sg_transforms := Some (dict_set xs xfmname (g cur))\<rparr>)"

text \<open>
  \<open>_pack_subjs\<close> (lines 210 to 223).  A set is iterated as a list without
  duplicates.  When a call into \<open>db\<close> raises, what was written before stays written.
\<close>

fun pack_surfs :: "collab \<Rightarrow> h5file \<Rightarrow> string \<Rightarrow> (string \<times> string) list \<Rightarrow> h5file \<times> error option" where
  "pack_surfs P f subj [] = (f, None)"
| "pack_surfs P f subj ((surf, hemi) # rest) =
     (case db_get_surf P subj surf hemi of
        Inl e \<Rightarrow> (f, Some e)
      | Inr (pts, polys) \<Rightarrow>
          (let f1 = upd_surf f subj surf hemi (\<lambda>n. n\<lparr>node_pts := Some pts\<rparr>);
               f2 = upd_surf f1 subj surf hemi (\<lambda>n. n\<lparr>node_polys := Some polys\<rparr>)
           in pack_surfs P f2 subj rest))"

fun pack_subjs :: "collab \<Rightarrow> h5file \<Rightarrow> string list \<Rightarrow> h5file \<times> error option" where
  "pack_subjs P f [] = (f, None)"
| "pack_subjs P f (subj # rest) =
     (case db_get_overlay P subj of
        Inl e \<Rightarrow> (f, Some e)
      | Inr xml \<Rightarrow>
          (let f1 = upd_subject f subj (\<lambda>sg. sg\<lparr>sg_rois := Some [xml]\<rparr>)
           in case db_get_paths P subj of
                Inl e \<Rightarrow> (f1, Some e)
              | Inr surfaces \<Rightarrow>
                  (case pack_surfs P f1 subj (List.product surfaces [''lh'', ''rh'']) of
                     (f2, Some e) \<Rightarrow> (f2, Some e)
                   | (f2, None) \<Rightarrow> pack_subjs P f2 rest)))"

text \<open>\<open>_pack_xfms\<close> (lines 225 to 230) and \<open>_pack_masks\<close> (lines 232 to 236).\<close>

fun pack_xfms :: "collab \<Rightarrow> h5file \<Rightarrow> (string \<times> string) list \<Rightarrow> h5file \<times> error option" where
  "pack_xfms P f [] = (f, None)"
| "pack_xfms P f ((subj, xfmname) # rest) =
     (case db_get_xfm P subj xfmname of
        Inl e \<Rightarrow> (f, Some e)
      | Inr (m, shape) \<Rightarrow>
          (let f1 = upd_xfm f subj xfmname (\<lambda>n. n\<lparr>xfm_matrix := Some m\<rparr>);
               f2 = upd_xfm f1 subj xfmname (\<lambda>n. n\<lparr>xfm_shape := Some shape\<rparr>)
           in pack_xfms P f2 rest))"

fun pack_masks :: "collab \<Rightarrow> h5file \<Rightarrow> (string \<times> string \<times> string) list \<Rightarrow> h5file \<times> error option" where
  "pack_masks P f [] = (f, None)"
| "pack_masks P f ((subj, xfm, maskname) # rest) =
     (case db_get_mask P subj xfm maskname of
        Inl e \<Rightarrow> (f, Some e)
      | Inr marr \<Rightarrow>
          pack_masks P
            (upd_xfm f subj xfm
               (\<lambda>n. n\<lparr>xfm_masks := Some (dict_set (or_empty (xfm_masks n)) maskname marr)\<rparr>))
            rest)"

text \<open>
  Lines 115 to 126: the three sets, filled from the unique data objects of every view.
  \<open>subjs.add\<close> runs first; the test \<open>isinstance(data, Volume)\<close> then evaluates the
  global name \<open>Volume\<close>.
\<close>

type_synonym packsets =
  "string list \<times> (string \<times> string) list \<times> (string \<times> string \<times> string) list"

fun collect_data :: "packsets \<Rightarrow> braindata list \<Rightarrow> error + packsets" where
  "collect_data acc [] = Inr acc"
| "collect_data (subjs, xfms, masks) (d # rest) =
     (let subjs' = List.insert (subject d) subjs
      in if \<not> name_bound ''Volume'' then Inl (Raise NameError ''Volume'' [])
         else (case d of
                 VolumeData s x m \<Rightarrow>
                   collect_data
                     (subjs', List.insert (s, x) xfms,
                      (case m of
                         MaskName mn \<Rightarrow> List.insert (s, x, mn) masks
                       | MaskInline a \<Rightarrow> masks))
                     rest
               | VertexData s \<Rightarrow> collect_data (subjs', xfms, masks) rest))"

fun collect_views :: "packsets \<Rightarrow> pyval list \<Rightarrow> error + packsets" where
  "collect_views acc [] = Inr acc"
| "collect_views acc (view # rest) =
     (case as_view view of
        None \<Rightarrow> Inl (Raise AttributeError ''uniques'' [])
      | Some dv \<Rightarrow>
          (case collect_data acc (dv_uniques dv) of
             Inl e \<Rightarrow> Inl e
           | Inr acc' \<Rightarrow> collect_views acc' rest))"

text \<open>Lines 111 and 112.\<close>

fun write_views :: "collab \<Rightarrow> h5file \<Rightarrow> (string \<times> pyval) list \<Rightarrow> h5file \<times> error option" where
  "write_views P f [] = (f, None)"
| "write_views P f ((name, view) # rest) =
     (case as_view view of
        None \<Rightarrow> (f, Some (Raise AttributeError ''_write_hdf'' []))
      | Some dv \<Rightarrow>
          (case write_hdf P dv name f of
             Inl e \<Rightarrow> (f, Some e)
           | Inr f' \<Rightarrow> write_views P f' rest))"

text \<open>Lines 106 to 109: the handle \<open>save\<close> writes to.\<close>

definition open_target :: "world \<Rightarrow> dataset \<Rightarrow> string option \<Rightarrow> error + (world \<times> string)" where
  "open_target w ds filename =
     (case filename of
        Some fn \<Rightarrow>
          (case h5py_File w fn of
             Inl e \<Rightarrow> Inl e
           | Inr (w1, f) \<Rightarrow> Inr (w1, fn))
      | None \<Rightarrow>
          (case h5 ds of
             None \<Rightarrow> Inl (Raise ValueError ''Must provide filename for new datasets'' [])
           | Some fn \<Rightarrow> Inr (w, fn)))"

text \<open>Lines 114 to 130.\<close>

definition pack :: "collab \<Rightarrow> h5file \<Rightarrow> dataset \<Rightarrow> h5file \<times> error option" where
  "pack P f ds =
     (case collect_views ([], [], []) (map snd (views ds)) of
        Inl e \<Rightarrow> (f, Some e)
      | Inr (subjs, xfms, masks) \<Rightarrow>
          (case pack_subjs P f subjs of
             (f1, Some e) \<Rightarrow> (f1, Some e)
           | (f1, None) \<Rightarrow>
               (case pack_xfms P f1 xfms of
                  (f2, Some e) \<Rightarrow> (f2, Some e)
                | (f2, None) \<Rightarrow> pack_masks P f2 masks)))"

text \<open>
  \<open>save\<close> returns nothing; the result is the state of \<open>self\<close>, whose handle it may have
  replaced.  The contents of the file are those seen through the handle.
\<close>

definition save :: "collab \<Rightarrow> world \<Rightarrow> dataset \<Rightarrow> string option \<Rightarrow> bool \<Rightarrow> world \<times> (error + dataset)" where
  "save P w ds filename do_pack =
     (case open_target w ds filename of
        Inl e \<Rightarrow> (w, Inl e)
      | Inr (w1, fn) \<Rightarrow>
          (case write_views P (h5_contents w1 fn) (views ds) of
             (f2, Some e) \<Rightarrow> (h5_store w1 fn f2, Inl e)
           | (f2, None) \<Rightarrow>
               if do_pack then
                 (case pack P f2 ds of
                    (f3, Some e) \<Rightarrow> (h5_store w1 fn f3, Inl e)
                  | (f3, None) \<Rightarrow> (h5_store w1 fn f3, Inr (ds\<lparr>h5 := Some fn\<rparr>)))
               else (h5_store w1 fn f2, Inr (ds\<lparr>h5 := Some fn\<rparr>))))"

section \<open>Dataset.get_surf\<close>

datatype surf_result =
    Surf "point list" "poly list"
  | Both "point list \<times> poly list" "point list \<times> poly list"

definition getitem :: "string \<Rightarrow> 'a option \<Rightarrow> error + 'a" where
  "getitem k v = (case v of None \<Rightarrow> Inl (Raise KeyError k []) | Some x \<Rightarrow> Inr x)"

definition ebind :: "error + 'a \<Rightarrow> ('a \<Rightarrow> error + 'b) \<Rightarrow> error + 'b" where
  "ebind r k = (case r of Inl e \<Rightarrow> Inl e | Inr x \<Rightarrow> k x)"

text \<open>Lines 150 and 151: the lookup through the groups of the file.\<close>

definition surf_group :: "h5file option \<Rightarrow> string \<Rightarrow> string \<Rightarrow> string \<Rightarrow> error + (point list \<times> poly list)" where
  "surf_group h subj type hemi =
     (case h of
        None \<Rightarrow> Inl (Raise TypeError ''NoneType object is not subscriptable'' [])
      | Some f \<Rightarrow>
          ebind (getitem ''subjects'' (top_subjects f)) (\<lambda>subs.
          ebind (getitem subj (map_of subs subj)) (\<lambda>sg.
          ebind (getitem ''surfaces'' (sg_surfaces sg)) (\<lambda>surfs.
          ebind (getitem type (map_of surfs type)) (\<lambda>hemis.
          ebind (getitem hemi (map_of hemis hemi)) (\<lambda>group.
          ebind (getitem ''pts'' (node_pts group)) (\<lambda>pts.
          ebind (getitem ''polys'' (node_polys group)) (\<lambda>polys.
          Inr (pts, polys)))))))))"

text \<open>
  Lines 152 to 156: \<open>pts[:,0] -= pts[:,0].max()\<close> for the left hemisphere and
  \<open>.min()\<close> for any other; the reduction of an empty column raises ValueError.
\<close>

fun col0 :: "point \<Rightarrow> rat" where
  "col0 (x, y, z) = x"

fun shift_x :: "rat \<Rightarrow> point \<Rightarrow> point" where
  "shift_x m (x, y, z) = (x - m, y, z)"

definition nudge_pts :: "string \<Rightarrow> point list \<Rightarrow> error + point list" where
  "nudge_pts hemi pts =
     (case map col0 pts of
        [] \<Rightarrow> Inl (Raise ValueError ''zero-size array to reduction operation'' [])
      | x # xs \<Rightarrow>
          (if hemi = ''lh'' then Inr (map (shift_x (fold max xs x)) pts)
           else Inr (map (shift_x (fold min xs x)) pts)))"

text \<open>
  \<open>(wpts + ppts) / 2\<close> on two N x 3 and M x 3 arrays: numpy adds row by row when
  N = M, repeats the single row when N = 1 or M = 1, and raises ValueError otherwise.
\<close>

fun padd :: "point \<Rightarrow> point \<Rightarrow> point" where
  "padd (x, y, z) (x', y', z') = (x + x', y + y', z + z')"

fun phalf :: "point \<Rightarrow> point" where
  "phalf (x, y, z) = (x / 2, y / 2, z / 2)"

definition np_add :: "point list \<Rightarrow> point list \<Rightarrow> error + point list" where
  "np_add a b =
     (if length a = length b then Inr (map2 padd a b)
      else (case (a, b) of
              ([p], _) \<Rightarrow> Inr (map (padd p) b)
            | (_, [q]) \<Rightarrow> Inr (map (\<lambda>p. padd p q) a)
            | _ \<Rightarrow> Inl (Raise ValueError ''operands could not be broadcast together'' [])))"

text \<open>\<open>except (KeyError, TypeError): raise IOError(...)\<close>.\<close>

definition not_found :: "string \<Rightarrow> error + 'a \<Rightarrow> error + 'a" where
  "not_found msg r =
     (case r of
        Inl e \<Rightarrow> if kind_of e = KeyError \<or> kind_of e = TypeError
                 then Inl (Raise IOError msg []) else Inl e
      | Inr x \<Rightarrow> Inr x)"

text \<open>
  The recursive calls of \<open>get_surf\<close> are all on one hemisphere: \<open>get_surf_hemi\<close> is
  the \<open>try\<close> statement of lines 144 to 159, that a call with \<open>hemi\<close> other than
  \<open>'both'\<close> runs.  The calls for the fiducial surface pass neither \<open>merge\<close> nor
  \<open>nudge\<close>.
\<close>

function get_surf_hemi :: "h5file option \<Rightarrow> string \<Rightarrow> string \<Rightarrow> string \<Rightarrow> bool \<Rightarrow> error + (point list \<times> poly list)" where
  "get_surf_hemi h subj type hemi nudge =
     not_found ''Subject not found in package''
       (if type = ''fiducial'' then
          ebind (get_surf_hemi h subj ''wm'' hemi False) (\<lambda>(wpts, polys).
          ebind (get_surf_hemi h subj ''pia'' hemi False) (\<lambda>(ppts, _).
          ebind (np_add wpts ppts) (\<lambda>s. Inr (map phalf s, polys))))
        else
          ebind (surf_group h subj type hemi) (\<lambda>(pts, polys).
          if nudge then ebind (nudge_pts hemi pts) (\<lambda>pts'. Inr (pts', polys))
          else Inr (pts, polys)))"
  by pat_completeness auto
termination
  by (relation "measure (\<lambda>(h, subj, type, hemi, nudge). if type = ''fiducial'' then 1 else 0)") auto

text \<open>\<open>right[1] + len(left[0])\<close>: the addition of the index array's integer type.\<close>

fun offset_poly :: "32 word \<Rightarrow> poly \<Rightarrow> poly" where
  "offset_poly n (a, b, c) = (a + n, b + n, c + n)"

text \<open>Lines 134 to 143 on top of it.\<close>

definition get_surf :: "h5file option \<Rightarrow> string \<Rightarrow> string \<Rightarrow> string \<Rightarrow> bool \<Rightarrow> bool \<Rightarrow> error + surf_result" where
  "get_surf h subj type hemi merge nudge =
     (if hemi = ''both'' then
        ebind (get_surf_hemi h subj type ''lh'' nudge) (\<lambda>left.
        ebind (get_surf_hemi h subj type ''rh'' nudge) (\<lambda>right.
          if merge then
            Inr (Surf (fst left @ fst right)
                      (snd left @ map (offset_poly (of_nat (length (fst left)))) (snd right)))
          else Inr (Both left right)))
      else ebind (get_surf_hemi h subj type hemi nudge) (\<lambda>(pts, polys). Inr (Surf pts polys)))"

section \<open>Properties the claims are stated with\<close>



text \<open>The input types \<open>normalize\<close> accepts.\<close>

fun supported :: "pyval \<Rightarrow> bool" where
  "supported (PyDataview d) = True"
| "supported (PyDataset h vs) = True"
| "supported (PyDict kv) = True"
| "supported (PyStr s) = True"
| "supported (PyTuple t) = True"
| "supported v = False"

text \<open>
  An error names a value when the value was formatted into its message, or the
  message holds the name of the value's type.
\<close>

definition names_value :: "error \<Rightarrow> pyval \<Rightarrow> bool" where
  "names_value e v = (v \<in> set (args_of e) \<or> sublist (type_name v) (message_of e))"

text \<open>\<open>Dataset(**kwargs)\<close> followed by iteration.\<close>

definition init_then_iter :: "collab \<Rightarrow> world \<Rightarrow> (string \<times> pyval) list \<Rightarrow> error + (string \<times> dataview) list" where
  "init_then_iter P w kwargs =
     (case Dataset_init P w kwargs of
        (w', Inl e) \<Rightarrow> Inl e
      | (w', Inr ds) \<Rightarrow> Dataset_iter ds)"

text \<open>\<open>ds.save(f)\<close> followed by \<open>Dataset.from_file(f)\<close>.\<close>

definition save_then_load :: "collab \<Rightarrow> world \<Rightarrow> dataset \<Rightarrow> string \<Rightarrow> world \<times> (error + dataset)" where
  "save_then_load P w ds fn =
     (case save P w ds (Some fn) False of
        (w1, Inl e) \<Rightarrow> (w1, Inl e)
      | (w1, Inr ds1) \<Rightarrow> from_file P w1 fn)"

text \<open>
  A node loads to a view equivalent to \<open>dv\<close>: \<open>from_hdf\<close> of the node gives such a view
  in every state in which \<open>db.auxfile\<close> is bound to a file that holds the node under
  the name \<open>name\<close> in its \<open>views\<close> group.
\<close>

definition loads_to :: "collab \<Rightarrow> (dataview \<Rightarrow> dataview \<Rightarrow> bool) \<Rightarrow> string \<Rightarrow> vnode \<Rightarrow> dataview \<Rightarrow> bool" where
  "loads_to P eqv name node dv =
     (\<forall>w fn g. auxfile w = Some fn \<and> fs w fn = Some (H5File g) \<and>
                map_of (or_empty (top_views g)) name = Some node \<longrightarrow>
        (\<exists>dv'. from_hdf P w node = Inr dv' \<and> eqv dv dv'))"

text \<open>
  The round-trip contract of the Dataview collaborator, for an equivalence \<open>eqv\<close> of
  views: a successful \<open>_write_hdf\<close> of a view under a name puts one node under that
  name in the \<open>views\<close> group, leaves the other view nodes and the foreign top-level
  nodes as they are, and the node loads to an equivalent view.
\<close>

definition dataview_roundtrip :: "collab \<Rightarrow> (dataview \<Rightarrow> dataview \<Rightarrow> bool) \<Rightarrow> bool" where
  "dataview_roundtrip P eqv =
     (\<forall>dv name f f'. write_hdf P dv name f = Inr f' \<longrightarrow>
        top_foreign f' = top_foreign f \<and>
        (\<exists>node. top_views f' = Some (dict_set (or_empty (top_views f)) name node) \<and>
                loads_to P eqv name node dv))"

text \<open>A view of a Dataset and the node written for it.\<close>

definition wrote :: "collab \<Rightarrow> (dataview \<Rightarrow> dataview \<Rightarrow> bool) \<Rightarrow> string \<times> pyval \<Rightarrow> string \<times> vnode \<Rightarrow> bool" where
  "wrote P eqv a b =
     (fst b = fst a \<and> (\<exists>dv. snd a = PyDataview dv \<and> loads_to P eqv (fst a) (snd b) dv))"




text \<open>The elementwise average of two points.\<close>

fun average :: "point \<Rightarrow> point \<Rightarrow> point" where
  "average (x, y, z) (x', y', z') = ((x + x') / 2, (y + y') / 2, (z + z') / 2)"

text \<open>
  The collaborators of \<open>P\<close> with a view loader that refuses to run unless
  \<open>db.auxfile\<close> is bound to the file \<open>fn\<close>.
\<close>

definition guarded :: "collab \<Rightarrow> string \<Rightarrow> collab" where
  "guarded P fn =
     P\<lparr>from_hdf := \<lambda>w node.
          if auxfile w = Some fn then from_hdf P w node
          else Inl (Raise OtherError ''auxfile is not bound'' [])\<rparr>"

section \<open>Example collaborators, files and datasets\<close>

text \<open>
  A Dataview collaborator that stores the priority of a view in its node, and loads
  it from there; a database with one surface.
\<close>

definition demo_collab :: collab where
  "demo_collab =
     \<lparr>vnorm = (\<lambda>t. Inr (PyDataview \<lparr>priority = int (length t), dv_uniques = []\<rparr>)),
      write_hdf = (\<lambda>dv name f.
         Inr (f\<lparr>top_views := Some (dict_set (or_empty (top_views f)) name [priority dv])\<rparr>)),
      from_hdf = (\<lambda>w node.
         case node of
           [p] \<Rightarrow> Inr \<lparr>priority = p, dv_uniques = []\<rparr>
         | _ \<Rightarrow> Inl (Raise OtherError ''corrupt view'' [])),
      from_hdf_data = (\<lambda>f name. Inl (Raise KeyError name [])),
      db_get_overlay = (\<lambda>s. Inr ''rois''),
      db_get_paths = (\<lambda>s. Inr [''wm'']),
      db_get_surf = (\<lambda>s t h. Inr ([(0, 0, 0)], [(0, 0, 0)])),
      db_get_xfm = (\<lambda>s x. Inr ([[1]], [1])),
      db_get_mask = (\<lambda>s x m. Inr [True])\<rparr>"

definition same_priority :: "dataview \<Rightarrow> dataview \<Rightarrow> bool" where
  "same_priority a b = (priority a = priority b)"

definition demo_view :: "int \<Rightarrow> dataview" where
  "demo_view p = \<lparr>priority = p, dv_uniques = []\<rparr>"

definition volume_view :: dataview where
  "volume_view = \<lparr>priority = 1, dv_uniques = [VolumeData ''S1'' ''T1'' (MaskName ''M1'')]\<rparr>"

text \<open>No file at all; a file \<open>old.hdf\<close> that holds one view; a file with a foreign node.\<close>

definition no_files :: world where
  "no_files = \<lparr>fs = (\<lambda>n. None), auxfile = None, out = []\<rparr>"

definition old_file :: world where
  "old_file =
     \<lparr>fs = (\<lambda>n. None)(''old.hdf'' \<mapsto> H5File (empty_h5\<lparr>top_views := Some [(''old'', [7])]\<rparr>)),
      auxfile = None, out = []\<rparr>"

definition foreign_file :: world where
  "foreign_file =
     \<lparr>fs = (\<lambda>n. None)(''f.hdf'' \<mapsto>
        H5File (empty_h5\<lparr>top_views := Some [(''v'', [3])], top_foreign := [(''stray'', [])]\<rparr>)),
      auxfile = None, out = []\<rparr>"

definition corrupt_file :: world where
  "corrupt_file =
     \<lparr>fs = (\<lambda>n. None)(''c.hdf'' \<mapsto>
        H5File (empty_h5\<lparr>top_views := Some [(''bad'', []), (''good'', [2])]\<rparr>)),
      auxfile = None, out = []\<rparr>"

text \<open>A path that h5py cannot open, while \<open>db.auxfile\<close> is not bound.\<close>

definition locked_file :: world where
  "locked_file =
     \<lparr>fs = (\<lambda>n. None)(''x.hdf'' \<mapsto> Unreadable), auxfile = None, out = []\<rparr>"

text \<open>Five views of one volume of subject \<open>S1\<close>, with transform \<open>T1\<close> and mask name \<open>M1\<close>.\<close>

definition five_views :: dataset where
  "five_views =
     \<lparr>h5 = None,
      views = [(''v1'', PyDataview volume_view), (''v2'', PyDataview volume_view),
               (''v3'', PyDataview volume_view), (''v4'', PyDataview volume_view),
               (''v5'', PyDataview volume_view)]\<rparr>"

text \<open>A package with the white-matter and pial surfaces of one subject.\<close>

definition demo_node :: "rat \<Rightarrow> surf_node" where
  "demo_node x = \<lparr>node_pts = Some [(x, 0, 0), (x + 2, 4, 6)], node_polys = Some [(0, 1, 1)]\<rparr>"

text \<open>
  A package whose white-matter surface has three points and whose pial surface has
  two; a package whose right hemisphere has a polygon with the largest vertex index.
\<close>

definition uneven_package :: h5file where
  "uneven_package =
     empty_h5\<lparr>top_subjects := Some
       [(''S1'', empty_subject\<lparr>sg_surfaces := Some
           [(''wm'', [(''lh'', \<lparr>node_pts = Some [(0, 0, 0), (1, 0, 0), (2, 0, 0)],
                                 node_polys = Some [(0, 1, 2)]\<rparr>)]),
            (''pia'', [(''lh'', \<lparr>node_pts = Some [(0, 1, 0), (1, 1, 0)],
                                  node_polys = Some [(0, 1, 1)]\<rparr>)])]\<rparr>)]\<rparr>"


definition demo_package :: h5file where
  "demo_package =
     empty_h5\<lparr>top_subjects := Some
       [(''S1'', empty_subject\<lparr>sg_surfaces := Some
           [(''wm'', [(''lh'', demo_node 0), (''rh'', demo_node 10)]),
            (''pia'', [(''lh'', demo_node 2), (''rh'', demo_node 12)])]\<rparr>)]\<rparr>"

section \<open>Basic facts\<close>

declare get_surf_hemi.simps [simp del]

lemma Dataset_init_no_kwargs: "Dataset_init P w [] = (w, Inr new_dataset)"
  by (simp add: Dataset_init_def)

lemma name_unbound_from_hdf_data: "\<not> name_bound ''_from_hdf_data''"
  by (simp add: name_bound_def module_globals_def builtins_def)

lemma name_unbound_Volume: "\<not> name_bound ''Volume''"
  by (simp add: name_bound_def module_globals_def builtins_def)

section \<open>get_surf\<close>

lemma phalf_padd: "phalf (padd p q) = average p q"
  by (cases p; cases q) simp

lemma get_surf_Surf_hemi:
  "get_surf h subj type hemi False nudge = Inr (Surf pts polys) \<Longrightarrow>
     hemi \<noteq> ''both'' \<and> get_surf_hemi h subj type hemi nudge = Inr (pts, polys)"
  by (auto simp: get_surf_def ebind_def split: if_splits sum.splits prod.splits)

lemma np_add_same: "length a = length b \<Longrightarrow> np_add a b = Inr (map2 padd a b)"
  by (simp add: np_add_def)

lemma np_add_left_row:
  "length a \<noteq> length b \<Longrightarrow> length a = 1 \<Longrightarrow> np_add a b = Inr (map (padd (hd a)) b)"
  by (auto simp: np_add_def length_Suc_conv split: list.splits)

lemma np_add_right_row:
  "length a \<noteq> length b \<Longrightarrow> length a \<noteq> 1 \<Longrightarrow> length b = 1 \<Longrightarrow>
     np_add a b = Inr (map (\<lambda>p. padd p (hd b)) a)"
  by (auto simp: np_add_def length_Suc_conv split: list.splits)

lemma np_add_mismatch:
  "length a \<noteq> length b \<Longrightarrow> length a \<noteq> 1 \<Longrightarrow> length b \<noteq> 1 \<Longrightarrow>
     np_add a b = Inl (Raise ValueError ''operands could not be broadcast together'' [])"
  by (auto simp: np_add_def split: list.splits)

lemma demo_surf_group:
  "surf_group (Some demo_package) ''S1'' ''wm'' ''lh'' = Inr ([(0, 0, 0), (2, 4, 6)], [(0, 1, 1)])"
  "surf_group (Some demo_package) ''S1'' ''wm'' ''rh'' = Inr ([(10, 0, 0), (12, 4, 6)], [(0, 1, 1)])"
  "surf_group (Some demo_package) ''S1'' ''pia'' ''lh'' = Inr ([(2, 0, 0), (4, 4, 6)], [(0, 1, 1)])"
  by (simp_all add: surf_group_def demo_package_def demo_node_def empty_h5_def empty_subject_def
        getitem_def ebind_def)

lemma demo_get_surf:
  "get_surf (Some demo_package) ''S1'' ''wm'' ''lh'' False False = Inr (Surf [(0, 0, 0), (2, 4, 6)] [(0, 1, 1)])"
  "get_surf (Some demo_package) ''S1'' ''wm'' ''rh'' False False = Inr (Surf [(10, 0, 0), (12, 4, 6)] [(0, 1, 1)])"
  "get_surf (Some demo_package) ''S1'' ''pia'' ''lh'' False False = Inr (Surf [(2, 0, 0), (4, 4, 6)] [(0, 1, 1)])"
  by (simp_all add: get_surf_def get_surf_hemi.simps demo_surf_group ebind_def not_found_def)

lemma uneven_surf_group:
  "surf_group (Some uneven_package) ''S1'' ''wm'' ''lh'' = Inr ([(0, 0, 0), (1, 0, 0), (2, 0, 0)], [(0, 1, 2)])"
  "surf_group (Some uneven_package) ''S1'' ''pia'' ''lh'' = Inr ([(0, 1, 0), (1, 1, 0)], [(0, 1, 1)])"
  by (simp_all add: surf_group_def uneven_package_def empty_h5_def empty_subject_def
        getitem_def ebind_def)

lemma uneven_get_surf:
  "get_surf (Some uneven_package) ''S1'' ''wm'' ''lh'' False False =
     Inr (Surf [(0, 0, 0), (1, 0, 0), (2, 0, 0)] [(0, 1, 2)])"
  "get_surf (Some uneven_package) ''S1'' ''pia'' ''lh'' False False =
     Inr (Surf [(0, 1, 0), (1, 1, 0)] [(0, 1, 1)])"
  by (simp_all add: get_surf_def get_surf_hemi.simps uneven_surf_group ebind_def not_found_def)



text \<open>
  Claim C7, as the code has it.  When the package holds the white-matter and the pial
  surface of a subject for a hemisphere, \<open>get_surf(subject, 'fiducial', hemi)\<close> returns
  the elementwise average of the two point arrays, together with the polygons of the
  white-matter surface, when the two arrays have as many points.  When they have
  not, numpy repeats a point array of a single point against the other array, and
  for any other two arrays \<open>get_surf\<close> raises the ValueError of the addition.
\<close>

theorem get_surf_fiducial:
  assumes wm: "get_surf h subj ''wm'' hemi False False = Inr (Surf wpts wpolys)"
    and pia: "get_surf h subj ''pia'' hemi False False = Inr (Surf ppts ppolys)"
  shows "(length wpts = length ppts \<longrightarrow>
            get_surf h subj ''fiducial'' hemi merge nudge =
              Inr (Surf (map2 average wpts ppts) wpolys)) \<and>
         (length wpts \<noteq> length ppts \<and> length wpts = 1 \<longrightarrow>
            get_surf h subj ''fiducial'' hemi merge nudge =
              Inr (Surf (map (average (hd wpts)) ppts) wpolys)) \<and>
         (length wpts \<noteq> length ppts \<and> length wpts \<noteq> 1 \<and> length ppts = 1 \<longrightarrow>
            get_surf h subj ''fiducial'' hemi merge nudge =
              Inr (Surf (map (\<lambda>p. average p (hd ppts)) wpts) wpolys)) \<and>
         (length wpts \<noteq> length ppts \<and> length wpts \<noteq> 1 \<and> length ppts \<noteq> 1 \<longrightarrow>
            get_surf h subj ''fiducial'' hemi merge nudge =
              Inl (Raise ValueError ''operands could not be broadcast together'' []))"
proof -
  from get_surf_Surf_hemi [OF wm] have nb: "hemi \<noteq> ''both''"
    and w: "get_surf_hemi h subj ''wm'' hemi False = Inr (wpts, wpolys)" by simp_all
  from get_surf_Surf_hemi [OF pia]
  have p: "get_surf_hemi h subj ''pia'' hemi False = Inr (ppts, ppolys)" by simp
  have f: "get_surf_hemi h subj ''fiducial'' hemi nudge =
             not_found ''Subject not found in package''
               (ebind (np_add wpts ppts) (\<lambda>s. Inr (map phalf s, wpolys)))"
    by (subst get_surf_hemi.simps) (simp add: w p ebind_def)
  have g: "get_surf h subj ''fiducial'' hemi merge nudge =
             ebind (get_surf_hemi h subj ''fiducial'' hemi nudge) (\<lambda>(pts, polys). Inr (Surf pts polys))"
    using nb by (simp add: get_surf_def)
  have 1: "length wpts = length ppts \<longrightarrow>
            get_surf h subj ''fiducial'' hemi merge nudge =
              Inr (Surf (map2 average wpts ppts) wpolys)"
    by (auto simp add: g f np_add_same ebind_def not_found_def phalf_padd)
  have 2: "length wpts \<noteq> length ppts \<and> length wpts = 1 \<longrightarrow>
            get_surf h subj ''fiducial'' hemi merge nudge =
              Inr (Surf (map (average (hd wpts)) ppts) wpolys)"
    by (auto simp add: g f np_add_left_row ebind_def not_found_def phalf_padd)
  have 3: "length wpts \<noteq> length ppts \<and> length wpts \<noteq> 1 \<and> length ppts = 1 \<longrightarrow>
            get_surf h subj ''fiducial'' hemi merge nudge =
              Inr (Surf (map (\<lambda>p. average p (hd ppts)) wpts) wpolys)"
    by (auto simp add: g f np_add_right_row ebind_def not_found_def phalf_padd)
  have 4: "length wpts \<noteq> length ppts \<and> length wpts \<noteq> 1 \<and> length ppts \<noteq> 1 \<longrightarrow>
            get_surf h subj ''fiducial'' hemi merge nudge =
              Inl (Raise ValueError ''operands could not be broadcast together'' [])"
    by (auto simp add: g f np_add_mismatch ebind_def not_found_def)
  from 1 2 3 4 show ?thesis by (intro conjI)
qed

theorem get_surf_fiducial_witness:
  "get_surf (Some demo_package) ''S1'' ''wm'' ''lh'' False False = Inr (Surf [(0, 0, 0), (2, 4, 6)] [(0, 1, 1)]) \<and>
   get_surf (Some demo_package) ''S1'' ''pia'' ''lh'' False False = Inr (Surf [(2, 0, 0), (4, 4, 6)] [(0, 1, 1)]) \<and>
   length [(0, 0, 0), (2, 4, 6) :: point] = length [(2, 0, 0), (4, 4, 6) :: point] \<and>
   get_surf (Some demo_package) ''S1'' ''fiducial'' ''lh'' False False = Inr (Surf [(1, 0, 0), (3, 4, 6)] [(0, 1, 1)])"
  using get_surf_fiducial [OF demo_get_surf(1) demo_get_surf(3), of False False]
  by (simp add: demo_get_surf)

text \<open>
  Claim C7 as stated fails: with three white-matter points and two pial points both
  surfaces exist in the package, and the fiducial surface is a ValueError.
\<close>

theorem get_surf_fiducial_counterexample:
  "get_surf (Some uneven_package) ''S1'' ''wm'' ''lh'' False False =
     Inr (Surf [(0, 0, 0), (1, 0, 0), (2, 0, 0)] [(0, 1, 2)]) \<and>
   get_surf (Some uneven_package) ''S1'' ''pia'' ''lh'' False False =
     Inr (Surf [(0, 1, 0), (1, 1, 0)] [(0, 1, 1)]) \<and>
   get_surf (Some uneven_package) ''S1'' ''fiducial'' ''lh'' False False =
     Inl (Raise ValueError ''operands could not be broadcast together'' [])"
  by (simp add: uneven_get_surf)
     (simp add: get_surf_def get_surf_hemi.simps uneven_surf_group ebind_def not_found_def
        np_add_def)






section \<open>normalize\<close>

text \<open>
  Claim C5, as the code has it.  For every input value that is not a Dataview, a
  Dataset, a dict, a string or a tuple, \<open>normalize\<close> raises TypeError with the fixed
  message \<open>Unknown input type\<close> and nothing formatted into it.
\<close>

theorem normalize_unsupported:
  "\<not> supported v \<Longrightarrow> normalize P w v = (w, Inl (Raise TypeError ''Unknown input type'' []))"
  by (cases v) simp_all

theorem normalize_unsupported_witness:
  "\<not> supported (PyInt 42) \<and>
   normalize demo_collab no_files (PyInt 42) = (no_files, Inl (Raise TypeError ''Unknown input type'' []))"
  using normalize_unsupported [of "PyInt 42" demo_collab no_files] by simp

text \<open>
  Claim C5 as stated fails: the error raised for the integer 42 names neither the
  value nor its type.
\<close>

theorem normalize_names_value_counterexample:
  "snd (normalize demo_collab no_files (PyInt 42)) = Inl (Raise TypeError ''Unknown input type'' []) \<and>
   \<not> names_value (Raise TypeError ''Unknown input type'' []) (PyInt 42)"
  by (simp add: names_value_def sublist_code)

section \<open>Dictionaries\<close>

lemma set_dict_set: "set (dict_set d k v) \<subseteq> insert (k, v) (set d)"
  unfolding dict_set_def by (induction d) auto

lemma keys_dict_set: "fst ` set (dict_set d k v) = insert k (fst ` set d)"
  unfolding dict_set_def by (induction d) auto

lemma map_of_dict_set: "map_of (dict_set d k v) = (map_of d)(k \<mapsto> v)"
  unfolding dict_set_def by (simp add: update_conv')

lemma distinct_dict_set: "distinct (map fst d) \<Longrightarrow> distinct (map fst (dict_set d k v))"
  unfolding dict_set_def by (simp add: distinct_update)


lemma map_of_dict_update: "map_of (dict_update d other) = map_of d ++ map_of (rev other)"
  unfolding dict_update_def
proof (induction other arbitrary: d)
  case Nil
  then show ?case by simp
next
  case (Cons p other)
  obtain k v where p: "p = (k, v)" by (cases p)
  show ?case
    by (simp add: p Cons.IH map_of_dict_set fun_eq_iff map_add_def split: option.splits)
qed

lemma distinct_dict_update: "distinct (map fst d) \<Longrightarrow> distinct (map fst (dict_update d other))"
  unfolding dict_update_def
  by (induction other arbitrary: d) (auto simp: distinct_dict_set)



lemma load_stray_result:
  "load_stray P f w ds names = (w', r) \<Longrightarrow>
     w' = w \<and> (r = Inr ds \<or> r = Inl (Raise NameError ''_from_hdf_data'' []))"
  by (induction names) (auto simp: name_unbound_from_hdf_data split: if_splits)






lemma keys_dict_update: "fst ` set (dict_update d other) = fst ` set d \<union> fst ` set other"
  unfolding dict_update_def
proof (induction other arbitrary: d)
  case Nil
  then show ?case by simp
next
  case (Cons p other)
  obtain k v where p: "p = (k, v)" by (cases p)
  show ?case by (auto simp add: p Cons.IH keys_dict_set)
qed


section \<open>Dataset.append\<close>



section \<open>Dataset.__init__ and iteration\<close>

lemma normalize_view_pure:
  "snd (normalize P w v) = Inr (PyDataview dv) \<Longrightarrow> normalize P w' v = (w', Inr (PyDataview dv))"
  by (cases v) (auto simp: to_py_def split: prod.splits sum.splits)

lemma append_only_views:
  assumes "\<forall>(n, v) \<in> set kwargs. \<exists>dv. snd (normalize P w v) = Inr (PyDataview dv)"
  shows "\<exists>vs. append P w ds kwargs = (w, Inr (ds\<lparr>views := vs\<rparr>)) \<and>
           fst ` set vs = fst ` set (views ds) \<union> fst ` set kwargs \<and>
           (distinct (map fst (views ds)) \<longrightarrow> distinct (map fst vs)) \<and>
           (\<forall>(n, x) \<in> set vs. (n, x) \<in> set (views ds) \<or>
              (\<exists>v dv. (n, v) \<in> set kwargs \<and> snd (normalize P w v) = Inr (PyDataview dv) \<and> x = PyDataview dv))"
  using assms
proof (induction kwargs arbitrary: ds)
  case Nil
  show ?case by (rule exI [of _ "views ds"]) auto
next
  case (Cons p kwargs)
  obtain name data where p: "p = (name, data)" by (cases p)
  from Cons.prems p obtain dv where dv: "snd (normalize P w data) = Inr (PyDataview dv)" by auto
  have n: "normalize P w data = (w, Inr (PyDataview dv))" by (rule normalize_view_pure [OF dv])
  let ?ds1 = "ds\<lparr>views := dict_set (views ds) name (PyDataview dv)\<rparr>"
  from Cons.prems have "\<forall>(n, v) \<in> set kwargs. \<exists>dv. snd (normalize P w v) = Inr (PyDataview dv)" by simp
  from Cons.IH [OF this, of ?ds1] obtain vs where
    a: "append P w ?ds1 kwargs = (w, Inr (?ds1\<lparr>views := vs\<rparr>))"
    and k: "fst ` set vs = fst ` set (views ?ds1) \<union> fst ` set kwargs"
    and d: "distinct (map fst (views ?ds1)) \<longrightarrow> distinct (map fst vs)"
    and m: "\<forall>(n, x) \<in> set vs. (n, x) \<in> set (views ?ds1) \<or>
              (\<exists>v dv. (n, v) \<in> set kwargs \<and> snd (normalize P w v) = Inr (PyDataview dv) \<and> x = PyDataview dv)"
    by blast
  have 1: "append P w ds (p # kwargs) = (w, Inr (ds\<lparr>views := vs\<rparr>))"
    using a by (simp add: p n)
  have 2: "fst ` set vs = fst ` set (views ds) \<union> fst ` set (p # kwargs)"
    using k by (simp add: p keys_dict_set)
  have 3: "distinct (map fst (views ds)) \<longrightarrow> distinct (map fst vs)"
    using d by (simp add: distinct_dict_set)
  have 4: "\<forall>(n, x) \<in> set vs. (n, x) \<in> set (views ds) \<or>
              (\<exists>v dv. (n, v) \<in> set (p # kwargs) \<and> snd (normalize P w v) = Inr (PyDataview dv) \<and> x = PyDataview dv)"
  proof (clarify)
    fix n x assume nx: "(n, x) \<in> set vs" and notin: "\<not> (\<exists>v dv. (n, v) \<in> set (p # kwargs) \<and> snd (normalize P w v) = Inr (PyDataview dv) \<and> x = PyDataview dv)"
    from m nx have "(n, x) \<in> set (views ?ds1) \<or>
       (\<exists>v dv. (n, v) \<in> set kwargs \<and> snd (normalize P w v) = Inr (PyDataview dv) \<and> x = PyDataview dv)" by auto
    with notin have "(n, x) \<in> set (dict_set (views ds) name (PyDataview dv))" by auto
    with set_dict_set [of "views ds" name "PyDataview dv"]
    have "(n, x) = (name, PyDataview dv) \<or> (n, x) \<in> set (views ds)" by auto
    with notin dv p show "(n, x) \<in> set (views ds)" by auto
  qed
  from 1 2 3 4 show ?case by blast
qed

lemma those_views:
  "\<forall>(n, x) \<in> set vs. is_dataview x \<Longrightarrow>
     those (map (\<lambda>(n, v). map_option (Pair n) (as_view v)) vs) = Some (map (\<lambda>(n, v). (n, the (as_view v))) vs)"
proof (induction vs)
  case Nil
  then show ?case by simp
next
  case (Cons p vs)
  obtain n x where p: "p = (n, x)" by (cases p)
  from Cons.prems p obtain d where "x = PyDataview d" by (cases x) auto
  with Cons p show ?case by simp
qed

lemma distinct_keys_sort_key:
  "distinct (map fst (sort_key f xs)) = distinct (map fst xs)"
proof -
  have "mset (map fst (sort_key f xs)) = mset (map fst xs)" by simp
  then show ?thesis by (rule mset_eq_imp_distinct_iff)
qed

text \<open>
  Claim C6, as the code has it.  For keyword inputs whose values each normalize to a
  Dataview, \<open>Dataset(**kwargs)\<close> followed by iteration yields exactly the names passed,
  each once and bound to the Dataview its value normalizes to, in ascending order of
  \<open>priority\<close>.
\<close>

theorem init_then_iter_views:
  assumes "\<forall>(n, v) \<in> set kwargs. \<exists>dv. snd (normalize P w v) = Inr (PyDataview dv)"
  shows "\<exists>items. init_then_iter P w kwargs = Inr items \<and>
           set (map fst items) = set (map fst kwargs) \<and>
           distinct (map fst items) \<and>
           sorted (map (\<lambda>x. priority (snd x)) items) \<and>
           (\<forall>(n, dv) \<in> set items. \<exists>v. (n, v) \<in> set kwargs \<and> snd (normalize P w v) = Inr (PyDataview dv))"
proof -
  from append_only_views [OF assms, of new_dataset] obtain vs where
    a: "append P w new_dataset kwargs = (w, Inr (new_dataset\<lparr>views := vs\<rparr>))"
    and k: "fst ` set vs = fst ` set kwargs"
    and d: "distinct (map fst vs)"
    and m: "\<forall>(n, x) \<in> set vs.
              (\<exists>v dv. (n, v) \<in> set kwargs \<and> snd (normalize P w v) = Inr (PyDataview dv) \<and> x = PyDataview dv)"
    by (auto simp: new_dataset_def)
  let ?items = "map (\<lambda>(n, v). (n, the (as_view v))) vs"
  have dvs: "\<forall>(n, x) \<in> set vs. is_dataview x"
  proof (clarify)
    fix n x assume "(n, x) \<in> set vs"
    with m obtain dv where "x = PyDataview dv" by blast
    then show "is_dataview x" by simp
  qed
  have vi: "view_items (new_dataset\<lparr>views := vs\<rparr>) = Some ?items"
    by (simp add: view_items_def those_views [OF dvs])
  have fsts: "map fst ?items = map fst vs" by (induction vs) auto
  let ?sorted = "sort_key (\<lambda>x. priority (snd x)) ?items"
  have 1: "init_then_iter P w kwargs = Inr ?sorted"
    by (simp add: init_then_iter_def Dataset_init_def a Dataset_iter_def vi)
  have "set (map fst ?sorted) = set (map fst ?items)" by (simp only: set_map set_sort)
  also have "\<dots> = fst ` set kwargs" by (simp only: fsts set_map k)
  finally have 2: "set (map fst ?sorted) = set (map fst kwargs)" by (simp only: set_map)
  have 3: "distinct (map fst ?sorted)"
    by (simp only: distinct_keys_sort_key fsts d)
  have 4: "sorted (map (\<lambda>x. priority (snd x)) ?sorted)" by (rule sorted_sort_key)
  have 5: "\<forall>(n, dv) \<in> set ?sorted. \<exists>v. (n, v) \<in> set kwargs \<and> snd (normalize P w v) = Inr (PyDataview dv)"
  proof (clarify)
    fix n dv assume "(n, dv) \<in> set ?sorted"
    then have "(n, dv) \<in> set ?items" by (simp only: set_sort)
    then obtain x where x: "(n, x) \<in> set vs" and dv: "dv = the (as_view x)" by auto
    from m x obtain v dv' where "(n, v) \<in> set kwargs" "snd (normalize P w v) = Inr (PyDataview dv')" "x = PyDataview dv'"
      by blast
    with dv show "\<exists>v. (n, v) \<in> set kwargs \<and> snd (normalize P w v) = Inr (PyDataview dv)" by auto
  qed
  show ?thesis
    by (rule exI [of _ ?sorted]) (intro conjI 1 2 3 4 5)
qed

theorem init_then_iter_views_witness:
  "snd (normalize demo_collab no_files (PyDataview (demo_view 2))) = Inr (PyDataview (demo_view 2)) \<and>
   snd (normalize demo_collab no_files (PyTuple [PyInt 0])) = Inr (PyDataview (demo_view 1)) \<and>
   init_then_iter demo_collab no_files [(''b'', PyDataview (demo_view 2)), (''a'', PyTuple [PyInt 0])] =
     Inr [(''a'', demo_view 1), (''b'', demo_view 2)]"
proof -
  have h: "\<forall>(n, v) \<in> set [(''b'', PyDataview (demo_view 2)), (''a'', PyTuple [PyInt 0])].
      \<exists>dv. snd (normalize demo_collab no_files v) = Inr (PyDataview dv)"
    by (simp add: demo_collab_def)
  have e: "init_then_iter demo_collab no_files [(''b'', PyDataview (demo_view 2)), (''a'', PyTuple [PyInt 0])] =
     Inr [(''a'', demo_view 1), (''b'', demo_view 2)]"
    by (simp add: init_then_iter_def Dataset_init_def Dataset_iter_def view_items_def new_dataset_def
          dict_set_def demo_collab_def demo_view_def)
  from init_then_iter_views [OF h] e show ?thesis
    by (simp add: demo_collab_def demo_view_def)
qed

text \<open>
  Claim C6 as stated fails for a keyword whose value is a dict (or a Dataset):
  iteration yields the names inside it, not the name passed.
\<close>

theorem init_then_iter_names_counterexample:
  "init_then_iter demo_collab no_files [(''x'', PyDict [(''a'', PyDataview (demo_view 1))])] =
     Inr [(''a'', demo_view 1)] \<and>
   set (map fst [(''a'', demo_view 1)]) \<noteq> set (map fst [(''x'', PyDict [(''a'', PyDataview (demo_view 1))])])"
  by (simp add: init_then_iter_def Dataset_init_def Dataset_iter_def view_items_def new_dataset_def
        dict_set_def dict_update_def to_py_def)

section \<open>Dataset.from_file\<close>

lemma auxfile_py_print: "auxfile (py_print w line) = auxfile w"
  by (simp add: py_print_def)

lemma load_views_auxfile:
  "load_views P w ds vs = (w', ds') \<Longrightarrow> auxfile w' = auxfile w"
proof (induction vs arbitrary: w ds)
  case Nil
  then show ?case by simp
next
  case (Cons p vs)
  obtain name node where p: "p = (name, node)" by (cases p)
  show ?case
  proof (cases "from_hdf P w node")
    case (Inl e)
    with Cons.prems p have "load_views P (py_print w (Traceback e)) ds vs = (w', ds')" by simp
    from Cons.IH [OF this] show ?thesis by (simp add: auxfile_py_print)
  next
    case (Inr dv)
    with Cons.prems p
    have "load_views P w (ds\<lparr>views := dict_set (views ds) name (PyDataview dv)\<rparr>) vs = (w', ds')"
      by simp
    from Cons.IH [OF this] show ?thesis .
  qed
qed

lemma load_stray_guarded: "load_stray (guarded P fn) f w ds names = load_stray P f w ds names"
  by (induction names arbitrary: w ds) (simp_all add: guarded_def name_unbound_from_hdf_data)

lemma load_views_guarded:
  "auxfile w = Some fn \<Longrightarrow> load_views (guarded P fn) w ds vs = load_views P w ds vs"
proof (induction vs arbitrary: w ds)
  case Nil
  then show ?case by simp
next
  case (Cons p vs)
  obtain name node where p: "p = (name, node)" by (cases p)
  have g: "from_hdf (guarded P fn) w node = from_hdf P w node"
    using Cons.prems by (simp add: guarded_def)
  show ?case
    by (cases "from_hdf P w node") (simp_all add: p g Cons.IH Cons.prems auxfile_py_print)
qed

lemma from_file_cases:
  assumes "h5py_File w filename = Inr (w1, f)"
  shows "(\<exists>vs w4 ds4. top_views f = Some vs \<and>
            load_views P (w1\<lparr>auxfile := Some filename\<rparr>) (new_dataset\<lparr>h5 := Some filename\<rparr>)
              (h5_items vs) = (w4, ds4) \<and>
            from_file P w filename = (w4\<lparr>auxfile := None\<rparr>, Inr ds4)) \<or>
         (\<exists>e. from_file P w filename = (w1\<lparr>auxfile := Some filename\<rparr>, Inl e))"
proof -
  let ?w2 = "w1\<lparr>auxfile := Some filename\<rparr>"
  let ?ds1 = "new_dataset\<lparr>h5 := Some filename\<rparr>"
  obtain w3 r where s: "load_stray P f ?w2 ?ds1 (h5_keys f) = (w3, r)"
    by (cases "load_stray P f ?w2 ?ds1 (h5_keys f)")
  from load_stray_result [OF s] have w3: "w3 = ?w2"
    and r: "r = Inr ?ds1 \<or> r = Inl (Raise NameError ''_from_hdf_data'' [])" by simp_all
  from r show ?thesis
  proof
    assume r1: "r = Inr ?ds1"
    show ?thesis
    proof (cases "top_views f")
      case None
      with assms s r1 w3 show ?thesis by (simp add: from_file_def)
    next
      case (Some vs)
      obtain w4 ds4 where l: "load_views P ?w2 ?ds1 (h5_items vs) = (w4, ds4)"
        by (cases "load_views P ?w2 ?ds1 (h5_items vs)")
      with assms s r1 w3 Some show ?thesis by (simp add: from_file_def)
    qed
  next
    assume "r = Inl (Raise NameError ''_from_hdf_data'' [])"
    with assms s w3 show ?thesis by (simp add: from_file_def)
  qed
qed

lemma corrupt_file_load:
  "from_file demo_collab corrupt_file ''c.hdf'' =
     (corrupt_file\<lparr>out := [Traceback (Raise OtherError ''corrupt view'' [])]\<rparr>,
      Inr \<lparr>h5 = Some ''c.hdf'', views = [(''good'', PyDataview (demo_view 2))]\<rparr>)"
  by (simp add: from_file_def corrupt_file_def h5py_File_def empty_h5_def h5_keys_def h5_items_def
        reserved_def new_dataset_def demo_collab_def demo_view_def dict_set_def py_print_def)

lemma no_files_load:
  "from_file demo_collab no_files ''new.hdf'' =
     (\<lparr>fs = (\<lambda>n. None)(''new.hdf'' \<mapsto> H5File empty_h5), auxfile = Some ''new.hdf'', out = []\<rparr>,
      Inl (Raise KeyError ''views'' []))"
  by (simp add: from_file_def no_files_def h5py_File_def empty_h5_def h5_keys_def new_dataset_def)

lemma no_files_open:
  "h5py_File no_files ''new.hdf'' =
     Inr (\<lparr>fs = (\<lambda>n. None)(''new.hdf'' \<mapsto> H5File empty_h5), auxfile = None, out = []\<rparr>, empty_h5)"
  by (simp add: no_files_def h5py_File_def)

lemma locked_file_open:
  "h5py_File locked_file ''x.hdf'' = Inl (Raise IOError ''unable to open file'' [PyStr ''x.hdf''])"
  by (simp add: locked_file_def h5py_File_def)

text \<open>
  Claim C9, as the code has it.  In every call of \<open>Dataset.from_file\<close> the binding
  \<open>db.auxfile\<close> is set before the views are loaded (a loader that refuses to run
  without the binding changes nothing), and it is cleared when \<open>from_file\<close> returns,
  also when the loaders of some views have failed.  When \<open>from_file\<close> raises after it
  has opened the file, the binding stays set.  When \<open>h5py.File\<close> itself raises, the
  binding has not been set, and the state is as it was before the call.
\<close>

theorem from_file_auxfile:
  "(from_file P w fn = (w', Inr ds) \<longrightarrow> auxfile w' = None) \<and>
   (h5py_File w2 fn2 = Inr (w1, f) \<and> from_file P w2 fn2 = (w2', Inl e) \<longrightarrow>
      auxfile w2' = Some fn2) \<and>
   (h5py_File w4 fn4 = Inl e4 \<longrightarrow> from_file P w4 fn4 = (w4, Inl e4)) \<and>
   from_file (guarded P3 fn3) w3 fn3 = from_file P3 w3 fn3"
proof (intro conjI impI)
  assume a: "from_file P w fn = (w', Inr ds)"
  then obtain w0 f0 where o: "h5py_File w fn = Inr (w0, f0)"
    by (cases "h5py_File w fn") (auto simp: from_file_def)
  from from_file_cases [OF o, of P] a show "auxfile w' = None" by auto
next
  assume "h5py_File w2 fn2 = Inr (w1, f) \<and> from_file P w2 fn2 = (w2', Inl e)"
  then have o: "h5py_File w2 fn2 = Inr (w1, f)" and a: "from_file P w2 fn2 = (w2', Inl e)"
    by simp_all
  from from_file_cases [OF o, of P] a show "auxfile w2' = Some fn2" by auto
next
  assume "h5py_File w4 fn4 = Inl e4"
  then show "from_file P w4 fn4 = (w4, Inl e4)" by (simp add: from_file_def)
next
  show "from_file (guarded P3 fn3) w3 fn3 = from_file P3 w3 fn3"
  proof (cases "h5py_File w3 fn3")
    case (Inl e)
    then show ?thesis by (simp add: from_file_def)
  next
    case (Inr p)
    obtain w0 f0 where p: "p = (w0, f0)" by (cases p)
    let ?w2 = "w0\<lparr>auxfile := Some fn3\<rparr>"
    let ?ds1 = "new_dataset\<lparr>h5 := Some fn3\<rparr>"
    obtain w5 r where s: "load_stray P3 f0 ?w2 ?ds1 (h5_keys f0) = (w5, r)"
      by (cases "load_stray P3 f0 ?w2 ?ds1 (h5_keys f0)")
    from load_stray_result [OF s] have w5: "w5 = ?w2" by simp
    have g: "load_views (guarded P3 fn3) ?w2 ds vs = load_views P3 ?w2 ds vs" for ds vs
      by (rule load_views_guarded) simp
    show ?thesis
      by (cases r; cases "top_views f0")
         (simp_all add: from_file_def Inr p load_stray_guarded s w5 g)
  qed
qed

theorem from_file_auxfile_witness:
  "from_file demo_collab corrupt_file ''c.hdf'' =
     (corrupt_file\<lparr>out := [Traceback (Raise OtherError ''corrupt view'' [])]\<rparr>,
      Inr \<lparr>h5 = Some ''c.hdf'', views = [(''good'', PyDataview (demo_view 2))]\<rparr>) \<and>
   auxfile (corrupt_file\<lparr>out := [Traceback (Raise OtherError ''corrupt view'' [])]\<rparr>) = None \<and>
   h5py_File no_files ''new.hdf'' =
     Inr (\<lparr>fs = (\<lambda>n. None)(''new.hdf'' \<mapsto> H5File empty_h5), auxfile = None, out = []\<rparr>, empty_h5) \<and>
   from_file demo_collab no_files ''new.hdf'' =
     (\<lparr>fs = (\<lambda>n. None)(''new.hdf'' \<mapsto> H5File empty_h5), auxfile = Some ''new.hdf'', out = []\<rparr>,
      Inl (Raise KeyError ''views'' [])) \<and>
   h5py_File locked_file ''x.hdf'' = Inl (Raise IOError ''unable to open file'' [PyStr ''x.hdf'']) \<and>
   from_file demo_collab locked_file ''x.hdf'' =
     (locked_file, Inl (Raise IOError ''unable to open file'' [PyStr ''x.hdf''])) \<and>
   auxfile locked_file = None \<and>
   from_file (guarded demo_collab ''c.hdf'') corrupt_file ''c.hdf'' =
     from_file demo_collab corrupt_file ''c.hdf''"
  using from_file_auxfile [where P = demo_collab and w = corrupt_file and fn = "''c.hdf''"
      and w' = "corrupt_file\<lparr>out := [Traceback (Raise OtherError ''corrupt view'' [])]\<rparr>"
      and ds = "\<lparr>h5 = Some ''c.hdf'', views = [(''good'', PyDataview (demo_view 2))]\<rparr>"
      and ?w2.0 = no_files and ?fn2.0 = "''new.hdf''"
      and ?w1.0 = "\<lparr>fs = (\<lambda>n. None)(''new.hdf'' \<mapsto> H5File empty_h5), auxfile = None, out = []\<rparr>"
      and f = empty_h5
      and w2' = "\<lparr>fs = (\<lambda>n. None)(''new.hdf'' \<mapsto> H5File empty_h5), auxfile = Some ''new.hdf'', out = []\<rparr>"
      and e = "Raise KeyError ''views'' []"
      and ?w4.0 = locked_file and ?fn4.0 = "''x.hdf''"
      and ?e4.0 = "Raise IOError ''unable to open file'' [PyStr ''x.hdf'']"
      and ?P3.0 = demo_collab and ?fn3.0 = "''c.hdf''" and ?w3.0 = corrupt_file]
    corrupt_file_load no_files_load no_files_open locked_file_open
  by (simp add: locked_file_def)

text \<open>
  Claim C9 as stated fails: a file without a \<open>views\<close> group makes \<open>from_file\<close> raise
  KeyError at line 85, and \<open>db.auxfile\<close> is still bound afterwards.
\<close>

theorem from_file_auxfile_counterexample:
  "snd (from_file demo_collab no_files ''new.hdf'') = Inl (Raise KeyError ''views'' []) \<and>
   auxfile (fst (from_file demo_collab no_files ''new.hdf'')) = Some ''new.hdf''"
  by (simp add: no_files_load)

text \<open>
  Claim C4 fails on the code.  For a file with a top-level node \<open>stray\<close> beside the
  \<open>views\<close> group, line 80 evaluates the name \<open>_from_hdf_data\<close>, which the module does
  not bind: \<open>from_file\<close> raises NameError, which \<open>except KeyError\<close> does not catch.
\<close>

theorem from_file_foreign_node:
  "from_file demo_collab foreign_file ''f.hdf'' =
     (foreign_file\<lparr>auxfile := Some ''f.hdf''\<rparr>, Inl (Raise NameError ''_from_hdf_data'' []))"
  by (simp add: from_file_def foreign_file_def h5py_File_def empty_h5_def h5_keys_def reserved_def
        new_dataset_def name_unbound_from_hdf_data)

section \<open>Dataset.save with pack\<close>

lemma collect_data_NameError:
  "ds \<noteq> [] \<Longrightarrow> collect_data acc ds = Inl (Raise NameError ''Volume'' [])"
  by (cases ds; cases acc) (auto simp: name_unbound_Volume Let_def)

lemma write_views_views:
  "write_views P f vs = (f', None) \<Longrightarrow> \<forall>(n, v) \<in> set vs. is_dataview v"
proof (induction vs arbitrary: f)
  case Nil
  then show ?case by simp
next
  case (Cons p vs)
  obtain name view where p: "p = (name, view)" by (cases p)
  from Cons.prems p obtain dv where v: "view = PyDataview dv" by (cases view) auto
  from Cons.prems p v obtain f1 where "write_hdf P dv name f = Inr f1"
    and "write_views P f1 vs = (f', None)"
    by (cases "write_hdf P dv name f") auto
  with Cons.IH p v show ?case by auto
qed

lemma collect_views_NameError:
  assumes "\<forall>v \<in> set vals. is_dataview v"
    and "\<exists>v \<in> set vals. \<exists>dv. v = PyDataview dv \<and> dv_uniques dv \<noteq> []"
  shows "collect_views acc vals = Inl (Raise NameError ''Volume'' [])"
  using assms
proof (induction vals arbitrary: acc)
  case Nil
  then show ?case by simp
next
  case (Cons v vals)
  from Cons.prems(1) obtain dv where v: "v = PyDataview dv" by (cases v) auto
  show ?case
  proof (cases "dv_uniques dv")
    case Nil
    with Cons.prems v have "\<exists>v \<in> set vals. \<exists>dv. v = PyDataview dv \<and> dv_uniques dv \<noteq> []" by auto
    with Cons.IH Cons.prems(1) have "collect_views acc vals = Inl (Raise NameError ''Volume'' [])"
      by simp
    with v Nil show ?thesis by simp
  next
    case (Cons d rest)
    then have "collect_data acc (dv_uniques dv) = Inl (Raise NameError ''Volume'' [])"
      by (simp add: collect_data_NameError)
    with v show ?thesis by simp
  qed
qed

lemma demo_write_five:
  "write_views demo_collab empty_h5 (views five_views) =
     (empty_h5\<lparr>top_views := Some [(''v1'', [1]), (''v2'', [1]), (''v3'', [1]), (''v4'', [1]), (''v5'', [1])]\<rparr>, None)"
  by (simp add: five_views_def demo_collab_def volume_view_def or_empty_def dict_set_def empty_h5_def)

lemma demo_open_target:
  "open_target no_files ds (Some ''p.hdf'') =
     Inr (\<lparr>fs = (\<lambda>n. None)(''p.hdf'' \<mapsto> H5File empty_h5), auxfile = None, out = []\<rparr>, ''p.hdf'')"
  by (simp add: open_target_def h5py_File_def no_files_def)

lemma save_pack_five:
  "save demo_collab no_files five_views (Some ''p.hdf'') True =
     (h5_store \<lparr>fs = (\<lambda>n. None)(''p.hdf'' \<mapsto> H5File empty_h5), auxfile = None, out = []\<rparr> ''p.hdf''
        (empty_h5\<lparr>top_views := Some [(''v1'', [1]), (''v2'', [1]), (''v3'', [1]), (''v4'', [1]), (''v5'', [1])]\<rparr>),
      Inl (Raise NameError ''Volume'' []))"
proof -
  let ?w1 = "\<lparr>fs = (\<lambda>n. None)(''p.hdf'' \<mapsto> H5File empty_h5), auxfile = None, out = []\<rparr>"
  have h: "h5_contents ?w1 ''p.hdf'' = empty_h5" by (simp add: h5_contents_def)
  have c: "collect_views ([], [], []) (map snd (views five_views)) = Inl (Raise NameError ''Volume'' [])"
    by (simp add: five_views_def volume_view_def name_unbound_Volume)
  show ?thesis
    by (simp add: save_def demo_open_target h demo_write_five pack_def c del: write_views.simps)
qed

text \<open>
  Claim C10, as the code has it.  For every Dataset with a view whose \<open>uniques()\<close> is
  non-empty, \<open>save\<close> with \<open>pack=True\<close> does not complete.  When \<open>save\<close> has a handle to
  write to and has written every view, it reaches the name \<open>Volume\<close>, which the module
  does not bind, and raises NameError; otherwise it has raised before the pack branch.
\<close>

theorem save_pack_NameError:
  assumes u: "\<exists>(n, v) \<in> set (views ds). \<exists>dv. v = PyDataview dv \<and> dv_uniques dv \<noteq> []"
  shows "(\<exists>e. snd (save P w ds filename True) = Inl e) \<and>
         (\<forall>w1 fn f2.
            open_target w ds filename = Inr (w1, fn) \<and>
            write_views P (h5_contents w1 fn) (views ds) = (f2, None) \<longrightarrow>
              save P w ds filename True = (h5_store w1 fn f2, Inl (Raise NameError ''Volume'' [])))"
proof -
  have reach: "save P w ds filename True = (h5_store w1 fn f2, Inl (Raise NameError ''Volume'' []))"
    if t: "open_target w ds filename = Inr (w1, fn)"
      and wr: "write_views P (h5_contents w1 fn) (views ds) = (f2, None)" for w1 fn f2
  proof -
    from write_views_views [OF wr] have "\<forall>v \<in> set (map snd (views ds)). is_dataview v" by auto
    moreover from u have "\<exists>v \<in> set (map snd (views ds)). \<exists>dv. v = PyDataview dv \<and> dv_uniques dv \<noteq> []"
      by force
    ultimately have "collect_views ([], [], []) (map snd (views ds)) = Inl (Raise NameError ''Volume'' [])"
      by (rule collect_views_NameError)
    then show ?thesis by (simp add: save_def t wr pack_def)
  qed
  have "\<exists>e. snd (save P w ds filename True) = Inl e"
  proof (cases "open_target w ds filename")
    case (Inl e)
    then show ?thesis by (simp add: save_def)
  next
    case (Inr p)
    obtain w1 fn where p: "p = (w1, fn)" by (cases p)
    obtain f2 r where wv: "write_views P (h5_contents w1 fn) (views ds) = (f2, r)"
      by (cases "write_views P (h5_contents w1 fn) (views ds)")
    show ?thesis
    proof (cases r)
      case None
      with reach [of w1 fn f2] Inr p wv show ?thesis by simp
    next
      case (Some e)
      with Inr p wv show ?thesis by (simp add: save_def)
    qed
  qed
  with reach show ?thesis by blast
qed

theorem save_pack_NameError_witness:
  "dv_uniques volume_view \<noteq> [] \<and>
   open_target no_files five_views (Some ''p.hdf'') =
     Inr (\<lparr>fs = (\<lambda>n. None)(''p.hdf'' \<mapsto> H5File empty_h5), auxfile = None, out = []\<rparr>, ''p.hdf'') \<and>
   write_views demo_collab empty_h5 (views five_views) =
     (empty_h5\<lparr>top_views := Some [(''v1'', [1]), (''v2'', [1]), (''v3'', [1]), (''v4'', [1]), (''v5'', [1])]\<rparr>, None) \<and>
   snd (save demo_collab no_files five_views (Some ''p.hdf'') True) = Inl (Raise NameError ''Volume'' [])"
proof -
  have u: "\<exists>(n, v) \<in> set (views five_views). \<exists>dv. v = PyDataview dv \<and> dv_uniques dv \<noteq> []"
    by (simp add: five_views_def volume_view_def)
  from save_pack_NameError [OF u, of demo_collab no_files "Some ''p.hdf''"]
    demo_open_target demo_write_five save_pack_five
  show ?thesis by (simp add: volume_view_def)
qed

text \<open>
  Claim C10 as stated fails for a Dataset that owns no handle and is given no file
  name: \<open>save\<close> raises ValueError at line 109 and does not reach the name \<open>Volume\<close>.
\<close>

theorem save_pack_NameError_counterexample:
  "dv_uniques volume_view \<noteq> [] \<and>
   save demo_collab no_files five_views None True =
     (no_files, Inl (Raise ValueError ''Must provide filename for new datasets'' [])) \<and>
   snd (save demo_collab no_files five_views None True) \<noteq> Inl (Raise NameError ''Volume'' [])"
  by (simp add: save_def open_target_def five_views_def volume_view_def)

text \<open>
  Claim C2 fails on the code.  For a Dataset of five views of one volume (subject
  \<open>S1\<close>, transform \<open>T1\<close>, mask name \<open>M1\<close>), \<open>save\<close> with \<open>pack=True\<close> raises NameError
  at line 121, before any of the pack functions runs: the file holds no \<open>subjects\<close>
  group afterwards, so the subject, its transform and its mask are written zero
  times, not once.
\<close>

theorem save_pack_five_views:
  "snd (save demo_collab no_files five_views (Some ''p.hdf'') True) = Inl (Raise NameError ''Volume'' []) \<and>
   top_subjects (h5_contents (fst (save demo_collab no_files five_views (Some ''p.hdf'') True)) ''p.hdf'') = None"
  by (simp add: save_pack_five h5_store_def h5_contents_def empty_h5_def)

section \<open>The round trip of save and from_file\<close>

lemma map_of_rev_distinct: "distinct (map fst xs) \<Longrightarrow> map_of (rev xs) = map_of xs"
proof (induction xs)
  case Nil
  then show ?case by simp
next
  case (Cons p xs)
  obtain k v where p: "p = (k, v)" by (cases p)
  from Cons.prems p have k: "map_of xs k = None" by (simp add: map_of_eq_None_iff)
  from Cons have ih: "map_of (rev xs) = map_of xs" by simp
  show ?case
    by (rule ext) (simp add: p ih map_add_def k split: option.splits)
qed

lemma h5py_File_stored: "h5py_File (h5_store w fn f) fn = Inr (h5_store w fn f, f)"
  by (simp add: h5py_File_def h5_store_def)

lemma open_target_contents:
  "open_target w ds (Some fn) = Inr (w0, fn') \<Longrightarrow> fn' = fn \<and> h5_contents w0 fn = h5_contents w fn"
  by (auto simp: open_target_def h5py_File_def h5_contents_def split: option.splits fentry.splits)

lemma load_stray_reserved:
  "set names \<subseteq> set reserved \<Longrightarrow> load_stray P f w ds names = (w, Inr ds)"
  by (induction names) auto

lemma h5_keys_reserved: "top_foreign f = [] \<Longrightarrow> set (h5_keys f) \<subseteq> set reserved"
  by (auto simp: h5_keys_def reserved_def split: option.splits)

lemma write_views_contract:
  assumes c: "dataview_roundtrip P eqv"
  shows "write_views P f vs = (f', None) \<Longrightarrow>
           top_foreign f' = top_foreign f \<and>
           (top_views f \<noteq> None \<or> vs \<noteq> [] \<longrightarrow> top_views f' \<noteq> None) \<and>
           (\<exists>nodes. or_empty (top_views f') = dict_update (or_empty (top_views f)) nodes \<and>
                    list_all2 (wrote P eqv) vs nodes)"
proof (induction vs arbitrary: f)
  case Nil
  then show ?case by (auto simp: dict_update_def)
next
  case (Cons p vs)
  obtain name view where p: "p = (name, view)" by (cases p)
  from Cons.prems p obtain dv where v: "view = PyDataview dv" by (cases view) auto
  from Cons.prems p v obtain f1 where w1: "write_hdf P dv name f = Inr f1"
    and rest: "write_views P f1 vs = (f', None)"
    by (cases "write_hdf P dv name f") auto
  from c w1 obtain node where fo: "top_foreign f1 = top_foreign f"
    and tv: "top_views f1 = Some (dict_set (or_empty (top_views f)) name node)"
    and ld: "loads_to P eqv name node dv"
    unfolding dataview_roundtrip_def by blast
  from Cons.IH [OF rest] obtain nodes where
    1: "top_foreign f' = top_foreign f1"
    and 2: "top_views f1 \<noteq> None \<or> vs \<noteq> [] \<longrightarrow> top_views f' \<noteq> None"
    and 3: "or_empty (top_views f') = dict_update (or_empty (top_views f1)) nodes"
    and 4: "list_all2 (wrote P eqv) vs nodes"
    by blast
  have a: "top_foreign f' = top_foreign f" using 1 fo by simp
  have b: "top_views f' \<noteq> None" using 2 tv by simp
  have e: "or_empty (top_views f') = dict_update (or_empty (top_views f)) ((name, node) # nodes)"
    using 3 tv by (simp add: dict_update_def or_empty_def)
  have l: "list_all2 (wrote P eqv) (p # vs) ((name, node) # nodes)"
    using 4 ld by (simp add: p v wrote_def)
  from a b e l show ?case by blast
qed

lemma load_views_world:
  "load_views P w ds ns = (w', ds') \<Longrightarrow> fs w' = fs w \<and> auxfile w' = auxfile w"
proof (induction ns arbitrary: w ds)
  case Nil
  then show ?case by simp
next
  case (Cons p ns)
  obtain name node where p: "p = (name, node)" by (cases p)
  show ?case
  proof (cases "from_hdf P w node")
    case (Inl e)
    with Cons.prems p have "load_views P (py_print w (Traceback e)) ds ns = (w', ds')" by simp
    from Cons.IH [OF this] show ?thesis by (simp add: py_print_def)
  next
    case (Inr dv)
    with Cons.prems p
    have "load_views P w (ds\<lparr>views := dict_set (views ds) name (PyDataview dv)\<rparr>) ns = (w', ds')"
      by simp
    from Cons.IH [OF this] show ?thesis .
  qed
qed

lemma load_views_other:
  "load_views P w ds ns = (w', ds') \<Longrightarrow> n \<notin> fst ` set ns \<Longrightarrow>
     map_of (views ds') n = map_of (views ds) n"
proof (induction ns arbitrary: w ds)
  case Nil
  then show ?case by simp
next
  case (Cons p ns)
  obtain name node where p: "p = (name, node)" by (cases p)
  from Cons.prems(2) p have nn: "n \<noteq> name" and ni: "n \<notin> fst ` set ns" by auto
  show ?case
  proof (cases "from_hdf P w node")
    case (Inl e)
    with Cons.prems p have "load_views P (py_print w (Traceback e)) ds ns = (w', ds')" by simp
    from Cons.IH [OF this ni] show ?thesis .
  next
    case (Inr dv)
    with Cons.prems p
    have "load_views P w (ds\<lparr>views := dict_set (views ds) name (PyDataview dv)\<rparr>) ns = (w', ds')"
      by simp
    from Cons.IH [OF this ni] nn show ?thesis by (simp add: map_of_dict_set)
  qed
qed

lemma load_views_keys:
  "load_views P w ds ns = (w', ds') \<Longrightarrow>
     fst ` set (views ds') \<subseteq> fst ` set (views ds) \<union> fst ` set ns"
proof (induction ns arbitrary: w ds)
  case Nil
  then show ?case by simp
next
  case (Cons p ns)
  obtain name node where p: "p = (name, node)" by (cases p)
  show ?case
  proof (cases "from_hdf P w node")
    case (Inl e)
    with Cons.prems p have "load_views P (py_print w (Traceback e)) ds ns = (w', ds')" by simp
    from Cons.IH [OF this] show ?thesis by auto
  next
    case (Inr dv)
    with Cons.prems p
    have "load_views P w (ds\<lparr>views := dict_set (views ds) name (PyDataview dv)\<rparr>) ns = (w', ds')"
      by simp
    from Cons.IH [OF this] show ?thesis by (auto simp: p keys_dict_set)
  qed
qed

lemma load_views_good:
  assumes "load_views P w ds ns = (w', ds')"
    and "distinct (map fst ns)"
    and "(n, node) \<in> set ns"
    and "\<forall>w''. fs w'' = fs w \<and> auxfile w'' = auxfile w \<longrightarrow>
           (\<exists>dv'. from_hdf P w'' node = Inr dv' \<and> Q dv')"
  shows "\<exists>dv'. map_of (views ds') n = Some (PyDataview dv') \<and> Q dv'"
  using assms
proof (induction ns arbitrary: w ds)
  case Nil
  then show ?case by simp
next
  case (Cons p ns)
  obtain name nd where p: "p = (name, nd)" by (cases p)
  from Cons.prems(2) p have d: "distinct (map fst ns)" and fresh: "name \<notin> fst ` set ns" by auto
  show ?case
  proof (cases "(n, node) = p")
    case True
    with p have eq: "name = n" "nd = node" by simp_all
    from Cons.prems(4) obtain dv' where f: "from_hdf P w node = Inr dv'" and q: "Q dv'" by blast
    from Cons.prems(1) p eq f
    have l: "load_views P w (ds\<lparr>views := dict_set (views ds) n (PyDataview dv')\<rparr>) ns = (w', ds')"
      by simp
    from fresh eq have "n \<notin> fst ` set ns" by simp
    from load_views_other [OF l this] have "map_of (views ds') n = Some (PyDataview dv')"
      by (simp add: map_of_dict_set)
    with q show ?thesis by blast
  next
    case False
    with Cons.prems(3) have m: "(n, node) \<in> set ns" by auto
    show ?thesis
    proof (cases "from_hdf P w nd")
      case (Inl e)
      with Cons.prems(1) p have l: "load_views P (py_print w (Traceback e)) ds ns = (w', ds')"
        by simp
      have g: "\<forall>w''. fs w'' = fs (py_print w (Traceback e)) \<and>
                 auxfile w'' = auxfile (py_print w (Traceback e)) \<longrightarrow>
                 (\<exists>dv'. from_hdf P w'' node = Inr dv' \<and> Q dv')"
        using Cons.prems(4) by (simp add: py_print_def)
      from Cons.IH [OF l d m g] show ?thesis .
    next
      case (Inr dv)
      with Cons.prems(1) p
      have l: "load_views P w (ds\<lparr>views := dict_set (views ds) name (PyDataview dv)\<rparr>) ns = (w', ds')"
        by simp
      from Cons.IH [OF l d m Cons.prems(4)] show ?thesis .
    qed
  qed
qed

lemma list_all2_keys:
  assumes "list_all2 R xs ys" and "\<And>a b. R a b \<Longrightarrow> fst b = fst a"
  shows "map fst ys = map fst xs"
  using assms by (induction xs ys rule: list_all2_induct) auto

lemma list_all2_lookup:
  assumes "list_all2 R xs ys" and "\<And>a b. R a b \<Longrightarrow> fst b = fst a"
    and "distinct (map fst xs)" and "(n, v) \<in> set xs"
  shows "\<exists>x. map_of ys n = Some x \<and> R (n, v) (n, x)"
  using assms
proof (induction xs ys rule: list_all2_induct)
  case Nil
  then show ?case by simp
next
  case (Cons a xs b ys)
  from Cons.hyps(1) Cons.prems(1) have k: "fst b = fst a" by blast
  show ?case
  proof (cases "(n, v) = a")
    case True
    with Cons.hyps(1) k have "R (n, v) (n, snd b)" by (cases b) auto
    moreover from True k have "map_of (b # ys) n = Some (snd b)" by (cases b) auto
    ultimately show ?thesis by blast
  next
    case False
    with Cons.prems have m: "(n, v) \<in> set xs" and d: "distinct (map fst xs)" by auto
    from Cons.IH [OF Cons.prems(1) d m] obtain x where
      x: "map_of ys n = Some x" and r: "R (n, v) (n, x)" by blast
    have "fst a \<notin> fst ` set xs" using Cons.prems(2) by simp
    moreover have "n \<in> fst ` set xs" using m by (metis fst_conv imageI)
    ultimately have "n \<noteq> fst a" by blast
    with k x have "map_of (b # ys) n = Some x" by (cases b) auto
    with r show ?thesis by blast
  qed
qed

lemma demo_roundtrip: "dataview_roundtrip demo_collab same_priority"
  by (auto simp: dataview_roundtrip_def loads_to_def demo_collab_def same_priority_def)

lemma demo_save_old:
  "save demo_collab old_file \<lparr>h5 = None, views = [(''a'', PyDataview (demo_view 3))]\<rparr>
     (Some ''old.hdf'') False =
     (h5_store old_file ''old.hdf'' (empty_h5\<lparr>top_views := Some [(''old'', [7]), (''a'', [3])]\<rparr>),
      Inr \<lparr>h5 = Some ''old.hdf'', views = [(''a'', PyDataview (demo_view 3))]\<rparr>)"
proof -
  let ?old = "empty_h5\<lparr>top_views := Some [(''old'', [7])]\<rparr>"
  let ?new = "empty_h5\<lparr>top_views := Some [(''old'', [7]), (''a'', [3])]\<rparr>"
  have o: "open_target old_file ds (Some ''old.hdf'') = Inr (old_file, ''old.hdf'')" for ds
    by (simp add: open_target_def h5py_File_def old_file_def)
  have h: "h5_contents old_file ''old.hdf'' = ?old" by (simp add: h5_contents_def old_file_def)
  have wv: "write_views demo_collab ?old [(''a'', PyDataview (demo_view 3))] = (?new, None)"
    by (simp add: demo_collab_def demo_view_def or_empty_def dict_set_def empty_h5_def)
  show ?thesis by (simp add: save_def o h wv del: write_views.simps)
qed

lemma demo_load_old:
  "snd (from_file demo_collab
          (h5_store old_file ''old.hdf'' (empty_h5\<lparr>top_views := Some [(''old'', [7]), (''a'', [3])]\<rparr>))
          ''old.hdf'') =
     Inr \<lparr>h5 = Some ''old.hdf'',
          views = [(''a'', PyDataview (demo_view 3)), (''old'', PyDataview (demo_view 7))]\<rparr>"
  by (simp add: from_file_def h5py_File_stored empty_h5_def h5_keys_def h5_items_def reserved_def
        new_dataset_def demo_collab_def demo_view_def dict_set_def)

text \<open>
  Claim C1, as the code has it.  Let the Dataview collaborator keep its round-trip
  contract, let the file \<open>f\<close> hold no foreign top-level node before (it may not
  exist), and let the Dataset \<open>ds\<close> have a view or the file a \<open>views\<close> group.  When
  \<open>ds.save(f)\<close> completes, \<open>Dataset.from_file(f)\<close> then returns a Dataset that has
  every view name of \<open>ds\<close>, and besides them only names of views that the file held
  before, and whose view under each name of \<open>ds\<close> is equivalent to the one of \<open>ds\<close>.
  The model of a group and of the \<open>views\<close> dict holds one entry for a name.
\<close>

theorem save_then_load_roundtrip:
  assumes c: "dataview_roundtrip P eqv"
    and ff: "top_foreign (h5_contents w fn) = []"
    and dg: "distinct (map fst (or_empty (top_views (h5_contents w fn))))"
    and ne: "views ds \<noteq> [] \<or> top_views (h5_contents w fn) \<noteq> None"
    and di: "distinct (map fst (views ds))"
    and sv: "save P w ds (Some fn) False = (w1, Inr ds1)"
  shows "\<exists>w2 ds2. save_then_load P w ds fn = (w2, Inr ds2) \<and>
           set (map fst (views ds)) \<subseteq> set (map fst (views ds2)) \<and>
           set (map fst (views ds2)) \<subseteq>
             set (map fst (views ds)) \<union> set (map fst (or_empty (top_views (h5_contents w fn)))) \<and>
           (\<forall>(n, v) \<in> set (views ds). \<exists>dv dv'.
              v = PyDataview dv \<and> map_of (views ds2) n = Some (PyDataview dv') \<and> eqv dv dv')"
proof -
  let ?f0 = "h5_contents w fn"
  let ?d = "or_empty (top_views ?f0)"
  from sv obtain w0 fn' where ot: "open_target w ds (Some fn) = Inr (w0, fn')"
    by (cases "open_target w ds (Some fn)") (auto simp: save_def)
  from open_target_contents [OF ot] have fn': "fn' = fn" and h0: "h5_contents w0 fn = ?f0"
    by simp_all
  obtain f2 r where wv: "write_views P ?f0 (views ds) = (f2, r)"
    by (cases "write_views P ?f0 (views ds)")
  from sv ot fn' h0 wv have r: "r = None" and w1: "w1 = h5_store w0 fn f2"
    by (auto simp: save_def split: option.splits)
  from write_views_contract [OF c wv [unfolded r]] obtain nodes where
    fo: "top_foreign f2 = top_foreign ?f0"
    and tvn: "top_views ?f0 \<noteq> None \<or> views ds \<noteq> [] \<longrightarrow> top_views f2 \<noteq> None"
    and oe: "or_empty (top_views f2) = dict_update ?d nodes"
    and la: "list_all2 (wrote P eqv) (views ds) nodes"
    by blast
  let ?L = "dict_update ?d nodes"
  have keys: "map fst nodes = map fst (views ds)"
    using la by (rule list_all2_keys) (simp add: wrote_def)
  from tvn ne oe have tv2: "top_views f2 = Some ?L" by (auto simp: or_empty_def)
  have dL: "distinct (map fst ?L)" using dg by (rule distinct_dict_update)
  have dN: "distinct (map fst nodes)" by (simp add: keys di)
  let ?w2 = "w1\<lparr>auxfile := Some fn\<rparr>"
  let ?d1 = "new_dataset\<lparr>h5 := Some fn\<rparr>"
  have hf: "h5py_File w1 fn = Inr (w1, f2)" by (simp only: w1 h5py_File_stored)
  have fsw: "fs ?w2 fn = Some (H5File f2)" by (simp add: w1 h5_store_def)
  have st: "load_stray P f2 ?w2 ?d1 (h5_keys f2) = (?w2, Inr ?d1)"
    by (rule load_stray_reserved) (simp add: h5_keys_reserved fo ff)
  obtain w4 ds4 where lv: "load_views P ?w2 ?d1 (h5_items ?L) = (w4, ds4)"
    by (cases "load_views P ?w2 ?d1 (h5_items ?L)")
  have ff2: "from_file P w1 fn = (w4\<lparr>auxfile := None\<rparr>, Inr ds4)"
    by (simp add: from_file_def hf st tv2 lv)
  have 1: "save_then_load P w ds fn = (w4\<lparr>auxfile := None\<rparr>, Inr ds4)"
    by (simp add: save_then_load_def sv ff2)
  have sI: "set (h5_items ?L) = set ?L" by (simp add: h5_items_def)
  have dI: "distinct (map fst (h5_items ?L))"
    by (simp only: h5_items_def distinct_keys_sort_key dL)
  have 4: "\<forall>(n, v) \<in> set (views ds). \<exists>dv dv'.
              v = PyDataview dv \<and> map_of (views ds4) n = Some (PyDataview dv') \<and> eqv dv dv'"
  proof (clarify)
    fix n v assume m: "(n, v) \<in> set (views ds)"
    from list_all2_lookup [OF la _ di m] obtain node where
      mn: "map_of nodes n = Some node" and wr: "wrote P eqv (n, v) (n, node)"
      by (auto simp: wrote_def)
    from wr obtain dv where v: "v = PyDataview dv" and lt: "loads_to P eqv n node dv"
      by (auto simp: wrote_def)
    have mL: "map_of ?L n = Some node"
      by (simp add: map_of_dict_update map_of_rev_distinct [OF dN] mn)
    then have inL: "(n, node) \<in> set (h5_items ?L)" by (simp only: sI) (rule map_of_SomeD)
    have good: "\<forall>w''. fs w'' = fs ?w2 \<and> auxfile w'' = auxfile ?w2 \<longrightarrow>
                  (\<exists>dv'. from_hdf P w'' node = Inr dv' \<and> eqv dv dv')"
    proof (intro allI impI)
      fix w'' :: world
      assume a: "fs w'' = fs ?w2 \<and> auxfile w'' = auxfile ?w2"
      then have "auxfile w'' = Some fn" and "fs w'' fn = Some (H5File f2)"
        using fsw by simp_all
      moreover have "map_of (or_empty (top_views f2)) n = Some node"
        by (simp only: oe mL)
      ultimately show "\<exists>dv'. from_hdf P w'' node = Inr dv' \<and> eqv dv dv'"
        using lt unfolding loads_to_def by blast
    qed
    from load_views_good [OF lv dI inL good] v
    show "\<exists>dv dv'. v = PyDataview dv \<and> map_of (views ds4) n = Some (PyDataview dv') \<and> eqv dv dv'"
      by blast
  qed
  have 2: "set (map fst (views ds)) \<subseteq> set (map fst (views ds4))"
  proof
    fix n assume "n \<in> set (map fst (views ds))"
    then obtain v where "(n, v) \<in> set (views ds)" by auto
    with 4 obtain x where "map_of (views ds4) n = Some x" by blast
    from map_of_SomeD [OF this] show "n \<in> set (map fst (views ds4))" by force
  qed
  have 3: "set (map fst (views ds4)) \<subseteq> set (map fst (views ds)) \<union> set (map fst ?d)"
  proof -
    from load_views_keys [OF lv]
    have "fst ` set (views ds4) \<subseteq> fst ` set ?L" by (simp add: new_dataset_def sI)
    also have "\<dots> = fst ` set ?d \<union> fst ` set nodes" by (rule keys_dict_update)
    also have "fst ` set nodes = set (map fst (views ds))" by (simp only: keys [symmetric] set_map)
    finally show ?thesis by auto
  qed
  show ?thesis
    by (rule exI [of _ "w4\<lparr>auxfile := None\<rparr>"], rule exI [of _ ds4]) (intro conjI 1 2 3 4)
qed

theorem save_then_load_roundtrip_witness:
  "dataview_roundtrip demo_collab same_priority \<and>
   top_foreign (h5_contents old_file ''old.hdf'') = [] \<and>
   or_empty (top_views (h5_contents old_file ''old.hdf'')) = [(''old'', [7])] \<and>
   snd (save_then_load demo_collab old_file
          \<lparr>h5 = None, views = [(''a'', PyDataview (demo_view 3))]\<rparr> ''old.hdf'') =
     Inr \<lparr>h5 = Some ''old.hdf'',
          views = [(''a'', PyDataview (demo_view 3)), (''old'', PyDataview (demo_view 7))]\<rparr> \<and>
   same_priority (demo_view 3) (demo_view 3)"
proof -
  let ?ds = "\<lparr>h5 = None, views = [(''a'', PyDataview (demo_view 3))]\<rparr>"
  have h: "h5_contents old_file ''old.hdf'' = empty_h5\<lparr>top_views := Some [(''old'', [7])]\<rparr>"
    by (simp add: h5_contents_def old_file_def)
  have ff: "top_foreign (h5_contents old_file ''old.hdf'') = []"
    by (simp add: h empty_h5_def)
  have oe: "or_empty (top_views (h5_contents old_file ''old.hdf'')) = [(''old'', [7])]"
    by (simp add: h or_empty_def)
  have dg: "distinct (map fst (or_empty (top_views (h5_contents old_file ''old.hdf''))))"
    by (simp add: oe)
  have ne: "views ?ds \<noteq> [] \<or> top_views (h5_contents old_file ''old.hdf'') \<noteq> None" by simp
  have di: "distinct (map fst (views ?ds))" by simp
  from save_then_load_roundtrip [OF demo_roundtrip ff dg ne di demo_save_old]
    demo_roundtrip ff oe
  show ?thesis
    by (simp add: save_then_load_def demo_save_old demo_load_old same_priority_def)
qed

text \<open>
  Claim C1 as stated fails for a file name whose file already holds a view:
  \<open>h5py.File(filename)\<close> opens the file as it is, \<open>save\<close> adds to it, and \<open>from_file\<close>
  returns the old view beside the saved one.
\<close>

theorem save_then_load_names_counterexample:
  "dataview_roundtrip demo_collab same_priority \<and>
   snd (save_then_load demo_collab old_file
          \<lparr>h5 = None, views = [(''a'', PyDataview (demo_view 3))]\<rparr> ''old.hdf'') =
     Inr \<lparr>h5 = Some ''old.hdf'',
          views = [(''a'', PyDataview (demo_view 3)), (''old'', PyDataview (demo_view 7))]\<rparr> \<and>
   set (map fst [(''a'', PyDataview (demo_view 3)), (''old'', PyDataview (demo_view 7))]) \<noteq>
   set (map fst [(''a'', PyDataview (demo_view 3))])"
  by (simp add: demo_roundtrip save_then_load_def demo_save_old demo_load_old)

end
